theory Spec2Isabelle
  imports Main
begin

section \<open>JavaScript values used by the handlers\<close>

text \<open>
  Strings are \<open>string\<close>; a character is a code point below 256 (Latin-1). A request
  field, a cookie or a header that may be \<open>undefined\<close> is a \<open>string option\<close>.
  JavaScript truthiness of such a value: \<open>undefined\<close> and the empty string are falsy,
  every other string is truthy.
\<close>

definition truthy :: "string option \<Rightarrow> bool" where
  "truthy v = (case v of None \<Rightarrow> False | Some s \<Rightarrow> s \<noteq> [])"

text \<open>\<open>a || b\<close> on two possibly undefined strings.\<close>

definition js_or :: "string option \<Rightarrow> string option \<Rightarrow> string option" where
  "js_or a b = (if truthy a then a else b)"

text \<open>
  \<open>String.prototype.trim\<close>: the white space and line terminator characters that fit in
  one byte (tab, LF, VT, FF, CR, space, no-break space).
\<close>

definition is_white_space :: "char \<Rightarrow> bool" where
  "is_white_space c = (c \<in> set [CHR 0x09, CHR 0x0A, CHR 0x0B, CHR 0x0C, CHR 0x0D, CHR 0x20, CHR 0xA0])"

definition trim :: "string \<Rightarrow> string" where
  "trim s = rev (dropWhile is_white_space (rev (dropWhile is_white_space s)))"

text \<open>
  \<open>String.prototype.toLowerCase\<close> on the characters below 256: the letters A to Z and
  the capital letters of Latin-1 (0xC0 to 0xDE without the multiplication sign 0xD7)
  go to the character 0x20 above them; every other character is left as it is.
\<close>

definition upper_letters :: string where
  "upper_letters =
     ''ABCDEFGHIJKLMNOPQRSTUVWXYZ'' @
     [CHR 0xC0, CHR 0xC1, CHR 0xC2, CHR 0xC3, CHR 0xC4, CHR 0xC5, CHR 0xC6, CHR 0xC7,
      CHR 0xC8, CHR 0xC9, CHR 0xCA, CHR 0xCB, CHR 0xCC, CHR 0xCD, CHR 0xCE, CHR 0xCF,
      CHR 0xD0, CHR 0xD1, CHR 0xD2, CHR 0xD3, CHR 0xD4, CHR 0xD5, CHR 0xD6, CHR 0xD8,
      CHR 0xD9, CHR 0xDA, CHR 0xDB, CHR 0xDC, CHR 0xDD, CHR 0xDE]"

definition lower_letters :: string where
  "lower_letters =
     ''abcdefghijklmnopqrstuvwxyz'' @
     [CHR 0xE0, CHR 0xE1, CHR 0xE2, CHR 0xE3, CHR 0xE4, CHR 0xE5, CHR 0xE6, CHR 0xE7,
      CHR 0xE8, CHR 0xE9, CHR 0xEA, CHR 0xEB, CHR 0xEC, CHR 0xED, CHR 0xEE, CHR 0xEF,
      CHR 0xF0, CHR 0xF1, CHR 0xF2, CHR 0xF3, CHR 0xF4, CHR 0xF5, CHR 0xF6, CHR 0xF8,
      CHR 0xF9, CHR 0xFA, CHR 0xFB, CHR 0xFC, CHR 0xFD, CHR 0xFE]"

definition toLowerCase_char :: "char \<Rightarrow> char" where
  "toLowerCase_char c =
     (case map_of (zip upper_letters lower_letters) c of
        None \<Rightarrow> c
      | Some l \<Rightarrow> l)"

definition toLowerCase :: "string \<Rightarrow> string" where
  "toLowerCase s = map toLowerCase_char s"

text \<open>
  \<open>s.replace(pat, rep)\<close> with a string pattern: the first occurrence of \<open>pat\<close> in
  \<open>s\<close>, wherever it stands, is replaced; a string without the pattern is returned as
  it is.
\<close>

fun replace :: "string \<Rightarrow> string \<Rightarrow> string \<Rightarrow> string" where
  "replace pat rep [] = (if pat = [] then rep else [])"
| "replace pat rep (c # cs) =
     (if take (length pat) (c # cs) = pat then rep @ drop (length pat) (c # cs)
      else c # replace pat rep cs)"

text \<open>
  Values of a document or of a response body. \<open>JUndefined\<close> is the value of a
  property that was never set (a destructured name that the object does not have).
\<close>

datatype jsval =
    JUndefined
  | JNull
  | JString string
  | JObjectId nat
  | JIdArray "nat list"
  | JObject "(string \<times> jsval) list"

text \<open>\<open>String(v)\<close>, as Express applies it to a cookie value that is not an object.\<close>

fun String_of :: "jsval \<Rightarrow> string" where
  "String_of JUndefined = ''undefined''"
| "String_of JNull = ''null''"
| "String_of (JString s) = s"
| "String_of _ = ''[object]''"

definition js_of_opt :: "string option \<Rightarrow> jsval" where
  "js_of_opt v = (case v of None \<Rightarrow> JUndefined | Some s \<Rightarrow> JString s)"

section \<open>Errors and responses\<close>

text \<open>
  A thrown value: \<open>ApiError statusCode message\<close> (the class of utils/ApiError.js, built
  as \<open>new ApiError(statusCode, message)\<close>), or any other JavaScript error with its
  message (a TypeError, an error thrown by jsonwebtoken). \<open>asyncHandler\<close> hands a thrown
  value to Express unchanged, so a handler's failure is the value it threw.
\<close>

datatype error = ApiError nat string | JsError string

fun message :: "error \<Rightarrow> string" where
  "message (ApiError _ m) = m"
| "message (JsError m) = m"

fun statusCode :: "error \<Rightarrow> nat option" where
  "statusCode (ApiError c _) = Some c"
| "statusCode (JsError _) = None"

text \<open>\<open>error?.message || dflt\<close>.\<close>

definition message_or :: "error \<Rightarrow> string \<Rightarrow> string" where
  "message_or e dflt = (if message e = [] then dflt else message e)"

text \<open>
  What a handler sends: the HTTP status, the cookies it sets (name, value as sent), the
  cookies it clears, and the \<open>ApiResponse(statusCode, data, message)\<close> passed to
  \<open>res.json\<close>. The cookie options are \<open>httpOnly\<close> and \<open>secure\<close> on every cookie and
  are not recorded.
\<close>

record 'd response =
  status :: nat
  cookies :: "(string \<times> string) list"
  clearedCookies :: "string list"
  api_statusCode :: nat
  api_data :: 'd
  api_message :: string

type_synonym 'a result = "error + 'a"

section \<open>The User model (models/user.model.js)\<close>

text \<open>
  The fields of the schema, \<open>_id\<close> as \<open>user_id\<close>; the timestamps, which no handler
  reads, are left out. \<open>password\<close> holds the stored hash.
\<close>

record user =
  user_id :: nat
  username :: string
  email :: string
  fullName :: string
  avatar :: string
  coverImage :: "string option"
  watchHistory :: "nat list"
  password :: string
  refreshToken :: "string option"

text \<open>The document of a stored user; an unset \<open>refreshToken\<close> or \<open>coverImage\<close> is no field.\<close>

definition user_doc :: "user \<Rightarrow> (string \<times> jsval) list" where
  "user_doc u =
     [(''_id'', JObjectId (user_id u)),
      (''username'', JString (username u)),
      (''email'', JString (email u)),
      (''fullName'', JString (fullName u)),
      (''avatar'', JString (avatar u))]
     @ (case coverImage u of None \<Rightarrow> [] | Some c \<Rightarrow> [(''coverImage'', JString c)])
     @ [(''watchHistory'', JIdArray (watchHistory u)),
        (''password'', JString (password u))]
     @ (case refreshToken u of None \<Rightarrow> [] | Some t \<Rightarrow> [(''refreshToken'', JString t)])"

text \<open>\<open>.select("-a -b")\<close>: the document without the excluded paths.\<close>

definition select_excluding :: "string list \<Rightarrow> (string \<times> jsval) list \<Rightarrow> (string \<times> jsval) list" where
  "select_excluding paths d = filter (\<lambda>kv. fst kv \<notin> set paths) d"

text \<open>
  The users collection is a list in the store's natural order. \<open>findById\<close> and
  \<open>findOne\<close> return the first match; \<open>updateById\<close> rewrites the first document with
  that \<open>_id\<close>, as \<open>save\<close> and \<open>findByIdAndUpdate\<close> do.
\<close>

definition findById :: "user list \<Rightarrow> nat \<Rightarrow> user option" where
  "findById us i = find (\<lambda>u. user_id u = i) us"

fun updateById :: "nat \<Rightarrow> (user \<Rightarrow> user) \<Rightarrow> user list \<Rightarrow> user list" where
  "updateById i f [] = []"
| "updateById i f (u # us) = (if user_id u = i then f u # us else u # updateById i f us)"

text \<open>
  \<open>User.findOne({$or: [{username}, {email}]})\<close>. Mongoose casts the filter through the
  schema's setters before it queries: \<open>lowercase\<close> and \<open>trim\<close> on username, \<open>trim\<close> on
  email (the email's option is spelt \<open>lowecase\<close> in the schema and has no effect). An
  undefined value matches no stored user, since every stored user has both fields.
\<close>

definition findOne_username_or_email :: "user list \<Rightarrow> string option \<Rightarrow> string option \<Rightarrow> user option" where
  "findOne_username_or_email us un em =
     find (\<lambda>u. map_option (\<lambda>n. trim (toLowerCase n)) un = Some (username u)
              \<or> map_option trim em = Some (email u)) us"

section \<open>The libraries the model calls\<close>

text \<open>
  The claims of a token. The access token carries \<open>_id\<close>, email, username and full
  name; the refresh token carries \<open>_id\<close> only.
\<close>

datatype payload = AccessPayload nat string string string | RefreshPayload nat

fun payload_id :: "payload \<Rightarrow> nat" where
  "payload_id (AccessPayload i _ _ _) = i"
| "payload_id (RefreshPayload i) = i"

text \<open>
  jsonwebtoken and bcrypt are libraries, not code of the repository: they are parameters.
  \<open>jwt_sign payload secret expiresIn now\<close> is \<open>jwt.sign(payload, secret, {expiresIn})\<close>
  called at the clock second \<open>now\<close>: with these options (the default HS256, no
  \<open>jwtid\<close>) the token is determined by the payload, the secret, the lifetime and the
  issue time, which the library writes in whole seconds. \<open>jwt_verify token secret now\<close>
  is \<open>jwt.verify\<close>, \<open>Inl\<close> the message of the error it throws. \<open>bcrypt_hash\<close> and
  \<open>bcrypt_compare\<close> are \<open>bcrypt.hash\<close> and \<open>bcrypt.compare\<close>.
\<close>

record lib =
  jwt_sign :: "payload \<Rightarrow> string \<Rightarrow> nat \<Rightarrow> nat \<Rightarrow> string"
  jwt_verify :: "string \<Rightarrow> string \<Rightarrow> nat \<Rightarrow> string + payload"
  bcrypt_hash :: "string \<Rightarrow> nat \<Rightarrow> string"
  bcrypt_compare :: "string \<Rightarrow> string \<Rightarrow> bool"

text \<open>\<open>process.env\<close>: the two signing secrets and the two lifetimes (in seconds).\<close>

record env =
  ACCESS_TOKEN_SECRET :: string
  ACCESS_TOKEN_EXPIRY :: nat
  REFRESH_TOKEN_SECRET :: string
  REFRESH_TOKEN_EXPIRY :: nat

subsection \<open>Methods and hooks of the schema\<close>

definition isPasswordCorrect :: "lib \<Rightarrow> user \<Rightarrow> string \<Rightarrow> bool" where
  "isPasswordCorrect L u pw = bcrypt_compare L pw (password u)"

definition generateAccessToken :: "lib \<Rightarrow> env \<Rightarrow> nat \<Rightarrow> user \<Rightarrow> string" where
  "generateAccessToken L E now u =
     jwt_sign L (AccessPayload (user_id u) (email u) (username u) (fullName u))
       (ACCESS_TOKEN_SECRET E) (ACCESS_TOKEN_EXPIRY E) now"

definition generateRefreshToken :: "lib \<Rightarrow> env \<Rightarrow> nat \<Rightarrow> user \<Rightarrow> string" where
  "generateRefreshToken L E now u =
     jwt_sign L (RefreshPayload (user_id u)) (REFRESH_TOKEN_SECRET E) (REFRESH_TOKEN_EXPIRY E) now"

text \<open>
  The \<open>pre("save")\<close> hook: the password is hashed only when the path is modified.
  \<open>save\<close> of a loaded document \<open>u\<close> (loaded as \<open>old\<close>) runs the hook and writes the
  document back; a path assigned the value it already had is not modified.
\<close>

definition pre_save :: "lib \<Rightarrow> bool \<Rightarrow> user \<Rightarrow> user" where
  "pre_save L isModified_password u =
     (if \<not> isModified_password then u else u\<lparr>password := bcrypt_hash L (password u) 10\<rparr>)"

definition save :: "lib \<Rightarrow> user \<Rightarrow> user \<Rightarrow> user list \<Rightarrow> user list" where
  "save L old u us = updateById (user_id u) (\<lambda>_. pre_save L (password u \<noteq> password old) u) us"

section \<open>Session handlers (the user controller)\<close>

text \<open>
  Every handler takes the libraries, the environment, the clock second of the request and
  the users collection, and returns what it sends or throws together with the users
  collection it leaves behind.
\<close>

text \<open>
  \<open>generateAccessAndRefereshTokens(userId)\<close>. A missing user makes
  \<open>user.generateAccessToken()\<close> throw inside the \<open>try\<close>; the \<open>catch\<close> turns every
  failure into the 500 error. The object returned has the properties \<open>accessToken\<close> and
  \<open>refreshToken\<close>.
\<close>

definition generateAccessAndRefereshTokens ::
  "lib \<Rightarrow> env \<Rightarrow> nat \<Rightarrow> user list \<Rightarrow> nat \<Rightarrow> (string \<times> string) list result \<times> user list" where
  "generateAccessAndRefereshTokens L E now us userId =
     (case findById us userId of
        None \<Rightarrow>
          (Inl (ApiError 500 ''Something went wrong while generating refresh and access token''), us)
      | Some u \<Rightarrow>
          (let accessToken = generateAccessToken L E now u;
               newToken = generateRefreshToken L E now u;
               u' = u\<lparr>refreshToken := Some newToken\<rparr>
           in (Inr [(''accessToken'', accessToken), (''refreshToken'', newToken)],
               save L u u' us)))"

text \<open>Destructuring \<open>const { name } = obj\<close>: \<open>undefined\<close> when the object has no such property.\<close>

definition destructure :: "(string \<times> string) list \<Rightarrow> string \<Rightarrow> string option" where
  "destructure obj name = map_of obj name"

text \<open>The identity exposed to callers: \<open>.select("-password -refreshToken")\<close>.\<close>

definition sanitized :: "user \<Rightarrow> (string \<times> jsval) list" where
  "sanitized u = select_excluding [''password'', ''refreshToken''] (user_doc u)"

definition doc_or_null :: "(string \<times> jsval) list option \<Rightarrow> jsval" where
  "doc_or_null d = (case d of None \<Rightarrow> JNull | Some x \<Rightarrow> JObject x)"

definition loginUser ::
  "lib \<Rightarrow> env \<Rightarrow> nat \<Rightarrow> user list \<Rightarrow> string option \<Rightarrow> string option \<Rightarrow> string
     \<Rightarrow> jsval response result \<times> user list" where
  "loginUser L E now us body_email body_username body_password =
     (if \<not> truthy body_username \<and> \<not> truthy body_email then
        (Inl (ApiError 400 ''username or email is required''), us)
      else (case findOne_username_or_email us body_username body_email of
        None \<Rightarrow> (Inl (ApiError 404 ''User does not exist''), us)
      | Some u \<Rightarrow>
          if \<not> isPasswordCorrect L u body_password then
            (Inl (ApiError 401 ''Invalid user credentials''), us)
          else (case generateAccessAndRefereshTokens L E now us (user_id u) of
            (Inl e, us') \<Rightarrow> (Inl e, us')
          | (Inr obj, us') \<Rightarrow>
              (let accessToken = destructure obj ''accessToken'';
                   newToken = destructure obj ''refreshToken'';
                   loggedInUser = map_option sanitized (findById us' (user_id u))
               in (Inr \<lparr>status = 200,
                         cookies = [(''accessToken'', String_of (js_of_opt accessToken)),
                                    (''refreshToken'', String_of (js_of_opt newToken))],
                         clearedCookies = [],
                         api_statusCode = 200,
                         api_data = JObject [(''user'', doc_or_null loggedInUser),
                                             (''accessToken'', js_of_opt accessToken),
                                             (''refreshToken'', js_of_opt newToken)],
                         api_message = ''User logged In Successfully''\<rparr>,
                   us')))))"


text \<open>
  \<open>refreshAccessToken\<close>. The body of the \<open>try\<close> is \<open>refreshAccessToken_try\<close>; the
  \<open>catch\<close> rethrows whatever was thrown there as
  \<open>ApiError(401, error?.message || "Invalid refresh token")\<close>. The handler destructures
  \<open>accessToken\<close> and \<open>newRefreshToken\<close> from the object that
  \<open>generateAccessAndRefereshTokens\<close> returns.
\<close>

definition refreshAccessToken_try ::
  "lib \<Rightarrow> env \<Rightarrow> nat \<Rightarrow> user list \<Rightarrow> string \<Rightarrow> jsval response result \<times> user list" where
  "refreshAccessToken_try L E now us incomingRefreshToken =
     (case jwt_verify L incomingRefreshToken (REFRESH_TOKEN_SECRET E) now of
        Inl m \<Rightarrow> (Inl (JsError m), us)
      | Inr decodedToken \<Rightarrow>
          (case findById us (payload_id decodedToken) of
             None \<Rightarrow> (Inl (ApiError 401 ''Invalid refresh token''), us)
           | Some u \<Rightarrow>
               if Some incomingRefreshToken \<noteq> refreshToken u then
                 (Inl (ApiError 401 ''Refresh token is expired or used''), us)
               else (case generateAccessAndRefereshTokens L E now us (user_id u) of
                 (Inl e, us') \<Rightarrow> (Inl e, us')
               | (Inr obj, us') \<Rightarrow>
                   (let accessToken = destructure obj ''accessToken'';
                        newRefreshToken = destructure obj ''newRefreshToken''
                    in (Inr \<lparr>status = 200,
                              cookies = [(''accessToken'', String_of (js_of_opt accessToken)),
                                         (''refreshToken'', String_of (js_of_opt newRefreshToken))],
                              clearedCookies = [],
                              api_statusCode = 200,
                              api_data = JObject [(''accessToken'', js_of_opt accessToken),
                                                  (''refreshToken'', js_of_opt newRefreshToken)],
                              api_message = ''Access token refreshed''\<rparr>,
                        us')))))"

definition refreshAccessToken ::
  "lib \<Rightarrow> env \<Rightarrow> nat \<Rightarrow> user list \<Rightarrow> string option \<Rightarrow> string option
     \<Rightarrow> jsval response result \<times> user list" where
  "refreshAccessToken L E now us cookie_refreshToken body_refreshToken =
     (case js_or cookie_refreshToken body_refreshToken of
        None \<Rightarrow> (Inl (ApiError 401 ''Unauthorized request''), us)
      | Some incomingRefreshToken \<Rightarrow>
          if incomingRefreshToken = [] then (Inl (ApiError 401 ''Unauthorized request''), us)
          else (case refreshAccessToken_try L E now us incomingRefreshToken of
            (Inl e, us') \<Rightarrow> (Inl (ApiError 401 (message_or e ''Invalid refresh token'')), us')
          | (Inr r, us') \<Rightarrow> (Inr r, us')))"

text \<open>
  \<open>changeCurrentPassword\<close>. A missing user makes \<open>user.isPasswordCorrect\<close> throw a
  TypeError. The assignment \<open>user.password = newPassword\<close> marks the path modified when
  the value differs from the loaded one; \<open>save\<close> then runs the hashing hook.
\<close>

definition changeCurrentPassword ::
  "lib \<Rightarrow> user list \<Rightarrow> nat \<Rightarrow> string \<Rightarrow> string \<Rightarrow> jsval response result \<times> user list" where
  "changeCurrentPassword L us req_user_id oldPassword newPassword =
     (case findById us req_user_id of
        None \<Rightarrow> (Inl (JsError ''Cannot read properties of null (reading 'isPasswordCorrect')''), us)
      | Some u \<Rightarrow>
          if \<not> isPasswordCorrect L u oldPassword then
            (Inl (ApiError 400 ''Invalid old password''), us)
          else
            (Inr \<lparr>status = 200,
                  cookies = [],
                  clearedCookies = [],
                  api_statusCode = 200,
                  api_data = JObject [],
                  api_message = ''Password changed successfully''\<rparr>,
             save L u (u\<lparr>password := newPassword\<rparr>) us))"

section \<open>The authentication middleware (middlewares/auth.middleware.js)\<close>

text \<open>
  \<open>verifyJWT\<close>. The token is \<open>req.cookies?.accessToken || req.header("Authorization")?.replace("Bearer ", "")\<close>.
  Everything, the missing-token check included, stands inside the \<open>try\<close>; the \<open>catch\<close>
  rethrows as \<open>ApiError(401, error?.message || "Invalid access token")\<close>. On success the
  value is \<open>req.user\<close>.
\<close>

definition verifyJWT_token :: "string option \<Rightarrow> string option \<Rightarrow> string option" where
  "verifyJWT_token cookie_accessToken header_Authorization =
     js_or cookie_accessToken (map_option (replace ''Bearer '' []) header_Authorization)"

definition verifyJWT_try ::
  "lib \<Rightarrow> env \<Rightarrow> nat \<Rightarrow> user list \<Rightarrow> string option \<Rightarrow> string option
     \<Rightarrow> (string \<times> jsval) list result" where
  "verifyJWT_try L E now us cookie_accessToken header_Authorization =
     (case verifyJWT_token cookie_accessToken header_Authorization of
        None \<Rightarrow> Inl (ApiError 401 ''Unauthorized request - No token found'')
      | Some token \<Rightarrow>
          if token = [] then Inl (ApiError 401 ''Unauthorized request - No token found'')
          else (case jwt_verify L token (ACCESS_TOKEN_SECRET E) now of
            Inl m \<Rightarrow> Inl (JsError m)
          | Inr decodedToken \<Rightarrow>
              (case findById us (payload_id decodedToken) of
                 None \<Rightarrow> Inl (ApiError 401 ''Invalid Access Token - User not found'')
               | Some u \<Rightarrow> Inr (sanitized u))))"

definition verifyJWT ::
  "lib \<Rightarrow> env \<Rightarrow> nat \<Rightarrow> user list \<Rightarrow> string option \<Rightarrow> string option
     \<Rightarrow> (string \<times> jsval) list result" where
  "verifyJWT L E now us cookie_accessToken header_Authorization =
     (case verifyJWT_try L E now us cookie_accessToken header_Authorization of
        Inl e \<Rightarrow> Inl (ApiError 401 (message_or e ''Invalid access token''))
      | Inr req_user \<Rightarrow> Inr req_user)"

section \<open>Registration (the user controller)\<close>

text \<open>
  \<open>req.files\<close> as multer leaves it: per field name the paths of the uploaded files, a
  field without an upload being \<open>undefined\<close>.
\<close>

record files =
  files_avatar :: "string list option"
  files_coverImage :: "string list option"

text \<open>
  The guard of \<open>registerUser\<close>:
  \<open>[fullName, email, username, password].some((field) => field?.trim() === "")\<close>.
  For an undefined field \<open>field?.trim()\<close> is \<open>undefined\<close>, which is not \<open>""\<close>.
\<close>

definition some_field_empty :: "string option list \<Rightarrow> bool" where
  "some_field_empty flds = list_ex (\<lambda>field. map_option trim field = Some []) flds"

text \<open>
  \<open>uploadOnCloudinary(localFilePath)\<close>: \<open>null\<close> for a falsy path and for a failed
  upload, else the response of the upload, of which the callers read the \<open>url\<close>. The
  upload itself is the parameter \<open>upload\<close>.
\<close>

definition uploadOnCloudinary :: "(string \<Rightarrow> string option) \<Rightarrow> string option \<Rightarrow> string option" where
  "uploadOnCloudinary upload localFilePath =
     (case localFilePath of
        None \<Rightarrow> None
      | Some path \<Rightarrow> if path = [] then None else upload path)"

text \<open>
  \<open>User.create\<close> on the schema: the setters (\<open>trim\<close> on username, email and full name,
  \<open>lowercase\<close> on username; the email option is spelt \<open>lowecase\<close> in the schema and has
  no effect), the \<open>required\<close> validators (an undefined or empty string fails), the
  hashing hook, and the unique indexes on username and email. \<open>new_id\<close> is the
  \<open>_id\<close> the driver generates.
\<close>

definition User_create ::
  "lib \<Rightarrow> nat \<Rightarrow> user list \<Rightarrow> string option \<Rightarrow> string \<Rightarrow> string \<Rightarrow> string option \<Rightarrow> string option
     \<Rightarrow> string \<Rightarrow> user result \<times> user list" where
  "User_create L new_id us c_fullName c_avatar c_coverImage c_email c_password c_username =
     (let fn = map_option trim c_fullName;
          em = map_option trim c_email;
          un = trim (toLowerCase c_username)
      in case (fn, em, c_password) of
           (Some f, Some e, Some pw) \<Rightarrow>
             if f = [] \<or> e = [] \<or> pw = [] \<or> un = [] \<or> c_avatar = [] then
               (Inl (JsError ''User validation failed''), us)
             else if list_ex (\<lambda>u. username u = un \<or> email u = e) us then
               (Inl (JsError ''E11000 duplicate key error collection''), us)
             else
               (let u = \<lparr>user_id = new_id, username = un, email = e, fullName = f,
                         avatar = c_avatar, coverImage = Some c_coverImage, watchHistory = [],
                         password = bcrypt_hash L pw 10, refreshToken = None\<rparr>
                in (Inr u, us @ [u]))
         | _ \<Rightarrow> (Inl (JsError ''User validation failed''), us))"

text \<open>
  \<open>req.files?.avatar[0]?.path\<close>: undefined without \<open>req.files\<close>, a TypeError when
  \<open>req.files\<close> has no \<open>avatar\<close> (the index is not optional), undefined for an empty
  array.
\<close>

definition avatarLocalPath_of :: "files option \<Rightarrow> string option result" where
  "avatarLocalPath_of req_files =
     (case req_files of
        None \<Rightarrow> Inr None
      | Some fs \<Rightarrow>
          (case files_avatar fs of
             None \<Rightarrow> Inl (JsError ''Cannot read properties of undefined (reading '0')'')
           | Some [] \<Rightarrow> Inr None
           | Some (path # _) \<Rightarrow> Inr (Some path)))"

text \<open>The cover image path, set only when \<open>req.files.coverImage\<close> is a non-empty array.\<close>

definition coverImageLocalPath_of :: "files option \<Rightarrow> string option" where
  "coverImageLocalPath_of req_files =
     (case req_files of
        None \<Rightarrow> None
      | Some fs \<Rightarrow>
          (case files_coverImage fs of
             None \<Rightarrow> None
           | Some [] \<Rightarrow> None
           | Some (path # _) \<Rightarrow> Some path))"

text \<open>
  The end of \<open>registerUser\<close>, from \<open>User.create\<close> on: \<open>username.toLowerCase()\<close> throws
  on an undefined username; the created user is read back without password and refresh
  token and sent with status 201.
\<close>

definition registerUser_create ::
  "lib \<Rightarrow> nat \<Rightarrow> user list \<Rightarrow> string option \<Rightarrow> string option \<Rightarrow> string option \<Rightarrow> string option
     \<Rightarrow> string \<Rightarrow> string option \<Rightarrow> jsval response result \<times> user list" where
  "registerUser_create L new_id us body_fullName body_email body_username body_password
       avatar_url coverImage_url =
     (case body_username of
        None \<Rightarrow> (Inl (JsError ''Cannot read properties of undefined (reading 'toLowerCase')''), us)
      | Some un \<Rightarrow>
          (case User_create L new_id us body_fullName avatar_url
                  (case js_or coverImage_url (Some []) of None \<Rightarrow> [] | Some c \<Rightarrow> c)
                  body_email body_password (toLowerCase un) of
             (Inl e, us') \<Rightarrow> (Inl e, us')
           | (Inr u, us') \<Rightarrow>
               (case map_option sanitized (findById us' (user_id u)) of
                  None \<Rightarrow> (Inl (ApiError 500 ''Something went wrong while registering the user''), us')
                | Some createdUser \<Rightarrow>
                    (Inr \<lparr>status = 201,
                          cookies = [],
                          clearedCookies = [],
                          api_statusCode = 200,
                          api_data = JObject createdUser,
                          api_message = ''User registered successfully''\<rparr>,
                     us'))))"

definition registerUser ::
  "lib \<Rightarrow> (string \<Rightarrow> string option) \<Rightarrow> nat \<Rightarrow> user list
     \<Rightarrow> string option \<Rightarrow> string option \<Rightarrow> string option \<Rightarrow> string option \<Rightarrow> files option
     \<Rightarrow> jsval response result \<times> user list" where
  "registerUser L upload new_id us body_fullName body_email body_username body_password req_files =
     (if some_field_empty [body_fullName, body_email, body_username, body_password] then
        (Inl (ApiError 400 ''All fields are required''), us)
      else if findOne_username_or_email us body_username body_email \<noteq> None then
        (Inl (ApiError 409 ''User with email or username already exists''), us)
      else
        (case avatarLocalPath_of req_files of
           Inl e \<Rightarrow> (Inl e, us)
         | Inr avatarLocalPath \<Rightarrow>
             if \<not> truthy avatarLocalPath then
               (Inl (ApiError 400 ''Avatar file is required''), us)
             else
               (case uploadOnCloudinary upload avatarLocalPath of
                  None \<Rightarrow> (Inl (ApiError 400 ''Avatar upload failed''), us)
                | Some avatar_url \<Rightarrow>
                    registerUser_create L new_id us body_fullName body_email body_username
                      body_password avatar_url
                      (uploadOnCloudinary upload (coverImageLocalPath_of req_files)))))"

section \<open>Relationship graph queries (the user controller)\<close>

text \<open>
  Modelled from the spec: the Subscription model (models/subscription.model.js) is not
  among the sources; a SubscriptionEdge is the directed pair (subscriber, channel) of
  account references, which is all the aggregation reads of it.
\<close>

record subscription =
  subscriber :: nat
  channel :: nat

text \<open>
  Modelled from the spec: the Video model (models/video.model.js) is not among the
  sources; the aggregation reads a video's \<open>_id\<close> and its \<open>owner\<close> reference and passes
  the other fields through.
\<close>

record video =
  video_id :: nat
  video_owner :: "nat option"
  video_fields :: "(string \<times> jsval) list"

text \<open>The \<open>$project\<close> stage of \<open>getUserChannelProfile\<close> (with the \<open>_id\<close> it keeps by default).\<close>

record channel_profile =
  cp_id :: nat
  cp_fullName :: string
  cp_username :: string
  subscribersCount :: nat
  channelsSubscribedToCount :: nat
  isSubscribed :: bool
  cp_avatar :: string
  cp_coverImage :: "string option"
  cp_email :: string

text \<open>
  \<open>$lookup\<close> with \<open>localField\<close>/\<open>foreignField\<close>: the documents of the foreign
  collection whose field equals the local value, in the foreign collection's order.
\<close>

definition lookup :: "('f \<Rightarrow> 'k) \<Rightarrow> 'k \<Rightarrow> 'f list \<Rightarrow> 'f list" where
  "lookup foreignField local from = filter (\<lambda>d. foreignField d = local) from"

text \<open>
  The pipeline of \<open>getUserChannelProfile\<close>: \<open>$match\<close> on the lowercased name, the two
  \<open>$lookup\<close>s into subscriptions, \<open>$addFields\<close>, \<open>$project\<close>. \<open>req.user?._id\<close> may be
  undefined, which is in no subscriber list.
\<close>

definition channel_pipeline ::
  "user list \<Rightarrow> subscription list \<Rightarrow> nat option \<Rightarrow> string \<Rightarrow> channel_profile list" where
  "channel_pipeline us subs req_user_id name =
     map (\<lambda>u.
        let subscribers = lookup channel (user_id u) subs;
            subscribedTo = lookup subscriber (user_id u) subs
        in \<lparr>cp_id = user_id u,
            cp_fullName = fullName u,
            cp_username = username u,
            subscribersCount = length subscribers,
            channelsSubscribedToCount = length subscribedTo,
            isSubscribed =
              (case req_user_id of
                 None \<Rightarrow> False
               | Some viewer \<Rightarrow> List.member (map subscriber subscribers) viewer),
            cp_avatar = avatar u,
            cp_coverImage = coverImage u,
            cp_email = email u\<rparr>)
       (filter (\<lambda>u. username u = name) us)"

definition getUserChannelProfile ::
  "user list \<Rightarrow> subscription list \<Rightarrow> nat option \<Rightarrow> string option \<Rightarrow> channel_profile response result" where
  "getUserChannelProfile us subs req_user_id params_username =
     (case params_username of
        None \<Rightarrow> Inl (ApiError 400 ''username is missing'')
      | Some name \<Rightarrow>
          if trim name = [] then Inl (ApiError 400 ''username is missing'')
          else (case channel_pipeline us subs req_user_id (toLowerCase name) of
                  [] \<Rightarrow> Inl (ApiError 404 ''channel does not exist'')
                | c # _ \<Rightarrow>
                    Inr \<lparr>status = 200,
                         cookies = [],
                         clearedCookies = [],
                         api_statusCode = 200,
                         api_data = c,
                         api_message = ''User channel fetched successfully''\<rparr>))"

text \<open>The inner \<open>$project\<close> of the owner lookup: full name, username, avatar (and \<open>_id\<close>).\<close>

record owner_view =
  owner_id :: nat
  owner_fullName :: string
  owner_username :: string
  owner_avatar :: string

text \<open>
  An element of the \<open>watchHistory\<close> array that \<open>getWatchHistory\<close> returns: the video
  document with its \<open>owner\<close> field replaced by \<open>$first\<close> of the owner lookup, which is
  missing when the lookup found nobody.
\<close>

record watch_entry =
  entry_id :: nat
  entry_fields :: "(string \<times> jsval) list"
  entry_owner :: "owner_view option"

text \<open>\<open>$first\<close> of an array.\<close>

definition first :: "'a list \<Rightarrow> 'a option" where
  "first xs = (case xs of [] \<Rightarrow> None | x # _ \<Rightarrow> Some x)"

definition owner_project :: "user \<Rightarrow> owner_view" where
  "owner_project u =
     \<lparr>owner_id = user_id u, owner_fullName = fullName u,
      owner_username = username u, owner_avatar = avatar u\<rparr>"

text \<open>
  The inner \<open>$lookup\<close> from \<open>users\<close> on the video's \<open>owner\<close>; a video without the field
  matches no user.
\<close>

definition owner_lookup :: "user list \<Rightarrow> nat option \<Rightarrow> owner_view list" where
  "owner_lookup us local =
     (case local of
        None \<Rightarrow> []
      | Some oid \<Rightarrow> map owner_project (lookup user_id oid us))"

text \<open>
  The outer \<open>$lookup\<close> from \<open>videos\<close> with the array \<open>watchHistory\<close> as local field: a
  video matches when its \<open>_id\<close> equals some element of the array; the matches come in
  the order of the videos collection, each video once.
\<close>

definition watchHistory_lookup :: "user list \<Rightarrow> video list \<Rightarrow> nat list \<Rightarrow> watch_entry list" where
  "watchHistory_lookup us videos ids =
     map (\<lambda>v. \<lparr>entry_id = video_id v,
                entry_fields = video_fields v,
                entry_owner = first (owner_lookup us (video_owner v))\<rparr>)
       (filter (\<lambda>v. List.member ids (video_id v)) videos)"

text \<open>
  \<open>getWatchHistory\<close>: the aggregation matches the caller's document; \<open>user[0].watchHistory\<close>
  throws a TypeError when nothing matched.
\<close>

definition getWatchHistory :: "user list \<Rightarrow> video list \<Rightarrow> nat \<Rightarrow> watch_entry list response result" where
  "getWatchHistory us videos req_user_id =
     (case filter (\<lambda>u. user_id u = req_user_id) us of
        [] \<Rightarrow> Inl (JsError ''Cannot read properties of undefined (reading 'watchHistory')'')
      | u # _ \<Rightarrow>
          Inr \<lparr>status = 200,
               cookies = [],
               clearedCookies = [],
               api_statusCode = 200,
               api_data = watchHistory_lookup us videos (watchHistory u),
               api_message = ''Watch history fetched successfully''\<rparr>)"

section \<open>A reference instance of the libraries\<close>

text \<open>
  An instance of the library parameters on which the handlers can be evaluated. A token
  is the issue second, the expiry second, the secret that signed it and the payload, in
  that order, numbers and lengths as single bytes (the examples keep ids, issue and
  expiry seconds below 256); like jsonwebtoken's HS256 tokens it is a function of
  payload, secret, lifetime and issue second, and nothing else.
  Verification reports a token it cannot read, then a wrong secret, then an elapsed
  expiry, with jsonwebtoken's messages. The password hash is the password behind a
  fixed prefix.
\<close>

definition enc_str :: "string \<Rightarrow> string" where
  "enc_str s = char_of (length s) # s"

definition dec_str :: "string \<Rightarrow> (string \<times> string) option" where
  "dec_str xs =
     (case xs of
        [] \<Rightarrow> None
      | n # rest \<Rightarrow>
          if length rest < of_char n then None
          else Some (take (of_char n) rest, drop (of_char n) rest))"

fun enc_payload :: "payload \<Rightarrow> string" where
  "enc_payload (RefreshPayload i) = [CHR ''R'', char_of i]"
| "enc_payload (AccessPayload i em un fn) =
     [CHR ''A'', char_of i] @ enc_str em @ enc_str un @ enc_str fn"

definition dec_payload :: "string \<Rightarrow> payload option" where
  "dec_payload xs =
     (case xs of
        k # i # rest \<Rightarrow>
          if k = CHR ''R'' then (if rest = [] then Some (RefreshPayload (of_char i)) else None)
          else if k = CHR ''A'' then
            (case dec_str rest of
               None \<Rightarrow> None
             | Some (em, r1) \<Rightarrow>
                 (case dec_str r1 of
                    None \<Rightarrow> None
                  | Some (un, r2) \<Rightarrow>
                      (case dec_str r2 of
                         None \<Rightarrow> None
                       | Some (fn, r3) \<Rightarrow>
                           if r3 = [] then Some (AccessPayload (of_char i) em un fn) else None)))
          else None
      | _ \<Rightarrow> None)"

definition ref_sign :: "payload \<Rightarrow> string \<Rightarrow> nat \<Rightarrow> nat \<Rightarrow> string" where
  "ref_sign p secret expiresIn now =
     char_of now # char_of (now + expiresIn) # enc_str secret @ enc_payload p"

definition ref_verify :: "string \<Rightarrow> string \<Rightarrow> nat \<Rightarrow> string + payload" where
  "ref_verify token secret now =
     (case token of
        iat # exp # rest \<Rightarrow>
          (case dec_str rest of
             None \<Rightarrow> Inl ''jwt malformed''
           | Some (sig, body) \<Rightarrow>
               (case dec_payload body of
                  None \<Rightarrow> Inl ''jwt malformed''
                | Some p \<Rightarrow>
                    if sig \<noteq> secret then Inl ''invalid signature''
                    else if of_char exp \<le> now then Inl ''jwt expired''
                    else Inr p))
      | _ \<Rightarrow> Inl ''jwt malformed'')"

definition ref_lib :: lib where
  "ref_lib =
     \<lparr>jwt_sign = ref_sign,
      jwt_verify = ref_verify,
      bcrypt_hash = (\<lambda>pw rounds. ''$2b$'' @ pw),
      bcrypt_compare = (\<lambda>pw h. h = ''$2b$'' @ pw)\<rparr>"

definition ref_env :: env where
  "ref_env =
     \<lparr>ACCESS_TOKEN_SECRET = ''a'', ACCESS_TOKEN_EXPIRY = 9,
      REFRESH_TOKEN_SECRET = ''r'', REFRESH_TOKEN_EXPIRY = 90\<rparr>"

text \<open>The account of the scenario: alice, alice@x.com, password pw123, not logged in.\<close>

definition alice :: user where
  "alice =
     \<lparr>user_id = 1, username = ''alice'', email = ''alice@x.com'', fullName = ''Alice'',
      avatar = ''http://img/alice.png'', coverImage = None, watchHistory = [],
      password = ''$2b$pw123'', refreshToken = None\<rparr>"

text \<open>The refresh token that the reference instance issues to alice at second \<open>t\<close>.\<close>

definition alice_refresh :: "nat \<Rightarrow> string" where
  "alice_refresh t = generateRefreshToken ref_lib ref_env t alice"

text \<open>The access token that the reference instance issues to alice at second \<open>t\<close>.\<close>

definition alice_access :: "nat \<Rightarrow> string" where
  "alice_access t = generateAccessToken ref_lib ref_env t alice"

text \<open>The state in which alice holds the refresh token issued at second \<open>t\<close>.\<close>

definition alice_in :: "nat \<Rightarrow> user" where
  "alice_in t = alice\<lparr>refreshToken := Some (alice_refresh t)\<rparr>"

text \<open>A refresh token for alice signed with a secret that is not the server's.\<close>

definition forged_refresh :: string where
  "forged_refresh = ref_sign (RefreshPayload 1) ''x'' 90 100"

text \<open>A second account, a subscription of bob to alice, and two videos.\<close>

definition bob :: user where
  "bob =
     \<lparr>user_id = 2, username = ''bob'', email = ''bob@x.com'', fullName = ''Bob'',
      avatar = ''http://img/bob.png'', coverImage = None, watchHistory = [2, 1, 2],
      password = ''$2b$hunter2'', refreshToken = None\<rparr>"

text \<open>An account whose handle has a letter outside ASCII: \<open>0xE5\<close> is the small a with ring.\<close>

definition asa :: user where
  "asa =
     \<lparr>user_id = 3, username = [CHR 0xE5, CHR ''s'', CHR ''a''], email = ''asa@x.com'',
      fullName = ''Asa'', avatar = ''http://img/asa.png'', coverImage = None,
      watchHistory = [], password = ''$2b$fjord'', refreshToken = None\<rparr>"

definition bob_follows_alice :: subscription where
  "bob_follows_alice = \<lparr>subscriber = 2, channel = 1\<rparr>"

definition video1 :: video where
  "video1 = \<lparr>video_id = 1, video_owner = Some 1, video_fields = [(''title'', JString ''first'')]\<rparr>"

definition video2 :: video where
  "video2 = \<lparr>video_id = 2, video_owner = Some 7, video_fields = [(''title'', JString ''second'')]\<rparr>"

section \<open>Reading results\<close>

text \<open>The value of a successful result, the response of a handler, and whether it sent 200.\<close>

definition result_value :: "'a result \<Rightarrow> 'a option" where
  "result_value x = (case x of Inl _ \<Rightarrow> None | Inr r \<Rightarrow> Some r)"

definition the_response :: "'d response result \<times> user list \<Rightarrow> 'd response option" where
  "the_response x = result_value (fst x)"

definition succeeded :: "'d response result \<times> user list \<Rightarrow> bool" where
  "succeeded x = (case fst x of Inl _ \<Rightarrow> False | Inr r \<Rightarrow> status r = 200)"

text \<open>\<open>v.k\<close> on a value: \<open>undefined\<close> when \<open>v\<close> is no object or has no such property.\<close>

definition js_prop :: "jsval \<Rightarrow> string \<Rightarrow> jsval" where
  "js_prop v k =
     (case v of
        JObject kvs \<Rightarrow> (case map_of kvs k of None \<Rightarrow> JUndefined | Some x \<Rightarrow> x)
      | _ \<Rightarrow> JUndefined)"

section \<open>The users collection\<close>

text \<open>The equations that evaluate \<open>trim\<close> and \<open>toLowerCase\<close> on a given string.\<close>

lemmas string_defs =
  trim_def is_white_space_def toLowerCase_def toLowerCase_char_def
  upper_letters_def lower_letters_def

lemma find_Some_set: "find P xs = Some x \<Longrightarrow> x \<in> set xs \<and> P x"
  by (induction xs) (auto split: if_splits)

lemma find_None_set: "find P xs = None \<longleftrightarrow> (\<forall>x\<in>set xs. \<not> P x)"
  by (induction xs) auto

lemma find_filter: "find P xs = (case filter P xs of [] \<Rightarrow> None | x # _ \<Rightarrow> Some x)"
  by (induction xs) auto

lemma findById_Some_id: "findById us i = Some u \<Longrightarrow> user_id u = i"
  by (auto simp: findById_def dest: find_Some_set)

lemma findById_member: "u \<in> set us \<Longrightarrow> \<exists>u'. findById us (user_id u) = Some u'"
  by (cases "findById us (user_id u)") (auto simp: findById_def find_None_set)

lemma findById_updateById:
  assumes "\<And>u. user_id u = i \<Longrightarrow> user_id (f u) = i"
  shows "findById (updateById i f us) j =
           (if j = i then map_option f (findById us i) else findById us j)"
  using assms by (induction us) (auto simp: findById_def)

lemma updateById_same:
  "findById us i = Some u \<Longrightarrow> updateById i (\<lambda>_. u) us = us"
  by (induction us) (auto simp: findById_def split: if_splits)

lemma user_id_pre_save [simp]: "user_id (pre_save L b u) = user_id u"
  by (simp add: pre_save_def)

lemma refreshToken_pre_save [simp]: "refreshToken (pre_save L b u) = refreshToken u"
  by (simp add: pre_save_def)

lemma findById_save:
  "findById (save L old u us) j =
     (if j = user_id u
      then map_option (\<lambda>_. pre_save L (password u \<noteq> password old) u) (findById us (user_id u))
      else findById us j)"
  unfolding save_def by (rule findById_updateById) simp


section \<open>Issuing and rotating tokens\<close>

lemma generate_Some:
  assumes "findById us i = Some u"
  shows "generateAccessAndRefereshTokens L E now us i =
           (Inr [(''accessToken'', generateAccessToken L E now u),
                 (''refreshToken'', generateRefreshToken L E now u)],
            save L u (u\<lparr>refreshToken := Some (generateRefreshToken L E now u)\<rparr>) us)"
  using assms by (simp add: generateAccessAndRefereshTokens_def Let_def)

lemma findById_after_generate:
  assumes "findById us i = Some u"
  shows "findById (snd (generateAccessAndRefereshTokens L E now us i)) j =
           (if j = i then Some (u\<lparr>refreshToken := Some (generateRefreshToken L E now u)\<rparr>)
            else findById us j)"
  using assms findById_Some_id[OF assms]
  by (simp add: generate_Some findById_save pre_save_def)

lemma loginUser_success:
  assumes "loginUser L E now us em un pw = (Inr r, us')"
  obtains u0 u where
    "findOne_username_or_email us un em = Some u0"
    "findById us (user_id u0) = Some u"
    "isPasswordCorrect L u0 pw"
    "us' = snd (generateAccessAndRefereshTokens L E now us (user_id u0))"
    "status r = 200"
    "cookies r = [(''accessToken'', generateAccessToken L E now u),
                  (''refreshToken'', generateRefreshToken L E now u)]"
proof -
  from assms obtain u0 where u0: "findOne_username_or_email us un em = Some u0"
    and pw: "isPasswordCorrect L u0 pw"
    by (auto simp: loginUser_def split: if_splits option.splits)
  from u0 have "u0 \<in> set us"
    by (auto simp: findOne_username_or_email_def dest: find_Some_set)
  then obtain u where u: "findById us (user_id u0) = Some u"
    using findById_member by blast
  from assms u0 pw u have "us' = snd (generateAccessAndRefereshTokens L E now us (user_id u0))"
    and "status r = 200"
    and "cookies r = [(''accessToken'', generateAccessToken L E now u),
                      (''refreshToken'', generateRefreshToken L E now u)]"
    by (auto simp: loginUser_def generate_Some Let_def destructure_def js_of_opt_def
             split: if_splits)
  with u0 u pw that show ?thesis by blast
qed


lemma refreshAccessToken_match:
  assumes "js_or c b = Some tok" "tok \<noteq> []"
    and "jwt_verify L tok (REFRESH_TOKEN_SECRET E) now = Inr p"
    and "findById us (payload_id p) = Some u"
    and "refreshToken u = Some tok"
  shows "refreshAccessToken L E now us c b =
           (Inr \<lparr>status = 200,
                 cookies = [(''accessToken'', generateAccessToken L E now u),
                            (''refreshToken'', ''undefined'')],
                 clearedCookies = [],
                 api_statusCode = 200,
                 api_data = JObject [(''accessToken'', JString (generateAccessToken L E now u)),
                                     (''refreshToken'', JUndefined)],
                 api_message = ''Access token refreshed''\<rparr>,
            snd (generateAccessAndRefereshTokens L E now us (payload_id p)))"
  using assms findById_Some_id[OF assms(4)]
  by (simp add: refreshAccessToken_def refreshAccessToken_try_def generate_Some Let_def
        destructure_def js_of_opt_def)

lemma refreshAccessToken_success:
  assumes "refreshAccessToken L E now us c b = (Inr r, us')"
  obtains tok p u where
    "js_or c b = Some tok" "tok \<noteq> []"
    "jwt_verify L tok (REFRESH_TOKEN_SECRET E) now = Inr p"
    "findById us (payload_id p) = Some u"
    "refreshToken u = Some tok"
proof -
  from assms obtain tok where tok: "js_or c b = Some tok" "tok \<noteq> []"
    by (auto simp: refreshAccessToken_def split: option.splits if_splits)
  with assms obtain p where p: "jwt_verify L tok (REFRESH_TOKEN_SECRET E) now = Inr p"
    by (auto simp: refreshAccessToken_def refreshAccessToken_try_def split: sum.splits)
  with assms tok obtain u where u: "findById us (payload_id p) = Some u"
    by (auto simp: refreshAccessToken_def refreshAccessToken_try_def split: option.splits)
  with assms tok p have "refreshToken u = Some tok"
    by (auto simp: refreshAccessToken_def refreshAccessToken_try_def split: if_splits)
  with tok p u that show ?thesis by blast
qed

section \<open>Rotation of the refresh credential\<close>




text \<open>
  This does not depend on the reference instance. For every library, a Refresh in the
  second of the Login, presenting the issued credential and verified to the account,
  leaves the users collection as it was, so repeating it gives the same success.
\<close>

lemma refresh_within_issue_second:
  assumes login: "loginUser L E t us em un pw = (Inr r1, us1)"
    and account: "findOne_username_or_email us un em = Some u0"
    and issued: "map_of (cookies r1) ''refreshToken'' = Some rt"
    and presented: "js_or c b = Some rt" "rt \<noteq> []"
    and verify: "jwt_verify L rt (REFRESH_TOKEN_SECRET E) t = Inr p" "payload_id p = user_id u0"
  shows "\<exists>r2. refreshAccessToken L E t us1 c b = (Inr r2, us1) \<and> status r2 = 200"
proof -
  from login obtain u0' u where
    u0': "findOne_username_or_email us un em = Some u0'"
    and u: "findById us (user_id u0') = Some u"
    and us1: "us1 = snd (generateAccessAndRefereshTokens L E t us (user_id u0'))"
    and ck: "cookies r1 = [(''accessToken'', generateAccessToken L E t u),
                           (''refreshToken'', generateRefreshToken L E t u)]"
    by (rule loginUser_success)
  from u0' account have [simp]: "u0' = u0" by simp
  from ck issued have rt: "rt = generateRefreshToken L E t u" by simp
  let ?u1 = "u\<lparr>refreshToken := Some rt\<rparr>"
  have f1: "findById us1 (user_id u0) = Some ?u1"
    using u by (simp add: us1 findById_after_generate rt)
  have a: "findById us1 (payload_id p) = Some ?u1" using f1 by (simp add: verify(2))
  have b: "refreshToken ?u1 = Some rt" by simp
  have same: "generateRefreshToken L E t ?u1 = rt"
    by (simp add: rt generateRefreshToken_def)
  have id1: "user_id ?u1 = user_id u0" using findById_Some_id[OF f1] .
  have "snd (generateAccessAndRefereshTokens L E t us1 (payload_id p)) = us1"
    using a f1 by (simp add: generate_Some same save_def pre_save_def verify(2) id1 updateById_same)
  with refreshAccessToken_match[OF presented verify(1) a b] show ?thesis by simp
qed

section \<open>What a successful Refresh returns\<close>

text \<open>
  Every successful Refresh, for every library: the handler destructures
  \<open>newRefreshToken\<close> from an object whose properties are \<open>accessToken\<close> and
  \<open>refreshToken\<close>, so the body's \<open>refreshToken\<close> is \<open>undefined\<close> and the cookie is set to
  the string "undefined", while the account stores the token that was minted.
\<close>

lemma refreshAccessToken_returns_undefined:
  assumes "refreshAccessToken L E now us c b = (Inr r, us')"
  shows "js_prop (api_data r) ''refreshToken'' = JUndefined
       \<and> map_of (cookies r) ''refreshToken'' = Some ''undefined''
       \<and> (\<exists>u. map_option refreshToken (findById us' (user_id u))
                 = Some (Some (generateRefreshToken L E now u)))"
proof -
  from assms obtain tok p u where tok: "js_or c b = Some tok" "tok \<noteq> []"
    and p: "jwt_verify L tok (REFRESH_TOKEN_SECRET E) now = Inr p"
    and u: "findById us (payload_id p) = Some u"
    and m: "refreshToken u = Some tok"
    by (rule refreshAccessToken_success)
  note eq = refreshAccessToken_match[OF tok p u m]
  from eq assms have r: "r = \<lparr>status = 200,
                 cookies = [(''accessToken'', generateAccessToken L E now u),
                            (''refreshToken'', ''undefined'')],
                 clearedCookies = [],
                 api_statusCode = 200,
                 api_data = JObject [(''accessToken'', JString (generateAccessToken L E now u)),
                                     (''refreshToken'', JUndefined)],
                 api_message = ''Access token refreshed''\<rparr>"
    and us': "us' = snd (generateAccessAndRefereshTokens L E now us (payload_id p))"
    by simp_all
  have "map_option refreshToken (findById us' (user_id u))
          = Some (Some (generateRefreshToken L E now u))"
    using u findById_Some_id[OF u] by (simp add: us' findById_after_generate)
  with r show ?thesis by (auto simp: js_prop_def)
qed

text \<open>
  C2, on the scenario. Login at second 100 issued \<open>alice_refresh 100\<close>; the Refresh at
  second 101 answers 200 with a new access token, but the refresh credential it returns
  is \<open>undefined\<close> (the cookie is the string "undefined"), not the value now stored,
  \<open>alice_refresh 101\<close>. Presenting what was returned fails with 401 "jwt malformed";
  only the stored value, which the client was never sent, would be accepted.
\<close>

theorem refresh_response_undefined:
  "the_response (refreshAccessToken ref_lib ref_env 101 [alice_in 100]
                   (Some (alice_refresh 100)) None)
     = Some \<lparr>status = 200,
             cookies = [(''accessToken'', generateAccessToken ref_lib ref_env 101 alice),
                        (''refreshToken'', ''undefined'')],
             clearedCookies = [],
             api_statusCode = 200,
             api_data = JObject [(''accessToken'',
                                    JString (generateAccessToken ref_lib ref_env 101 alice)),
                                 (''refreshToken'', JUndefined)],
             api_message = ''Access token refreshed''\<rparr>
   \<and> snd (refreshAccessToken ref_lib ref_env 101 [alice_in 100] (Some (alice_refresh 100)) None)
       = [alice_in 101]
   \<and> refreshAccessToken ref_lib ref_env 101 [alice_in 101] (Some ''undefined'') None
       = (Inl (ApiError 401 ''jwt malformed''), [alice_in 101])
   \<and> succeeded (refreshAccessToken ref_lib ref_env 101 [alice_in 101]
                  (Some (alice_refresh 101)) None)"
  by code_simp

section \<open>Logout\<close>




section \<open>Failures at the authentication boundary\<close>

lemma refreshAccessToken_Inl_401:
  "refreshAccessToken L E now us c b = (Inl e, us') \<Longrightarrow> \<exists>m. e = ApiError 401 m"
  by (auto simp: refreshAccessToken_def split: option.splits if_splits prod.splits sum.splits)

lemma verifyJWT_Inl_401:
  "verifyJWT L E now us c h = Inl e \<Longrightarrow> \<exists>m. e = ApiError 401 m"
  by (auto simp: verifyJWT_def split: sum.splits)

lemma refreshAccessToken_verify_fails:
  assumes "js_or c b = Some tok" "tok \<noteq> []"
    and "jwt_verify L tok (REFRESH_TOKEN_SECRET E) now = Inl m" "m \<noteq> []"
  shows "refreshAccessToken L E now us c b = (Inl (ApiError 401 m), us)"
  using assms by (simp add: refreshAccessToken_def refreshAccessToken_try_def message_or_def)

lemma verifyJWT_verify_fails:
  assumes "verifyJWT_token c h = Some tok" "tok \<noteq> []"
    and "jwt_verify L tok (ACCESS_TOKEN_SECRET E) now = Inl m" "m \<noteq> []"
  shows "verifyJWT L E now us c h = Inl (ApiError 401 m)"
  using assms by (simp add: verifyJWT_def verifyJWT_try_def message_or_def)

text \<open>
  C4, as amended. Every failure of \<open>refreshAccessToken\<close> and of \<open>verifyJWT\<close> is an
  ApiError with status code 401, whatever the cause. Its message is the message of the
  cause: when jsonwebtoken rejects the presented token with a non-empty message \<open>m\<close>
  (expired, wrong signature, malformed), the caller receives \<open>ApiError 401 m\<close>.
\<close>

theorem auth_failures_status_401:
  "(refreshAccessToken L E now us c b = (Inl e, us') \<longrightarrow> statusCode e = Some 401)
 \<and> (verifyJWT L E now us c h = Inl e' \<longrightarrow> statusCode e' = Some 401)
 \<and> (js_or c b = Some tok \<and> tok \<noteq> [] \<and> jwt_verify L tok (REFRESH_TOKEN_SECRET E) now = Inl m
       \<and> m \<noteq> []
       \<longrightarrow> refreshAccessToken L E now us c b = (Inl (ApiError 401 m), us))
 \<and> (verifyJWT_token c h = Some tok' \<and> tok' \<noteq> []
       \<and> jwt_verify L tok' (ACCESS_TOKEN_SECRET E) now = Inl m' \<and> m' \<noteq> []
       \<longrightarrow> verifyJWT L E now us c h = Inl (ApiError 401 m'))"
  using refreshAccessToken_Inl_401[of L E now us c b e us'] verifyJWT_Inl_401[of L E now us c h e']
    refreshAccessToken_verify_fails[of c b tok L E now m us]
    verifyJWT_verify_fails[of c h tok' L E now m' us]
  by auto

text \<open>
  An expired refresh token and an expired access token, presented at second 300: both
  are answered with status 401 and jsonwebtoken's message.
\<close>

theorem auth_failures_status_401_witness:
  "refreshAccessToken ref_lib ref_env 300 [alice_in 100] (Some (alice_refresh 100)) None
      = (Inl (ApiError 401 ''jwt expired''), [alice_in 100])
 \<and> statusCode (ApiError 401 ''jwt expired'') = Some 401
 \<and> verifyJWT ref_lib ref_env 300 [alice_in 100] (Some (alice_access 100)) None
      = Inl (ApiError 401 ''jwt expired'')"
proof -
  have a: "js_or (Some (alice_refresh 100)) None = Some (alice_refresh 100)"
    "alice_refresh 100 \<noteq> []"
    by (simp_all add: js_or_def truthy_def alice_refresh_def generateRefreshToken_def
          ref_lib_def ref_sign_def)
  have b: "jwt_verify ref_lib (alice_refresh 100) (REFRESH_TOKEN_SECRET ref_env) 300
             = Inl ''jwt expired''"
    by code_simp
  have c: "verifyJWT_token (Some (alice_access 100)) None = Some (alice_access 100)"
    "alice_access 100 \<noteq> []"
    by (simp_all add: verifyJWT_token_def js_or_def truthy_def alice_access_def
          generateAccessToken_def ref_lib_def ref_sign_def)
  have d: "jwt_verify ref_lib (alice_access 100) (ACCESS_TOKEN_SECRET ref_env) 300
             = Inl ''jwt expired''"
    by code_simp
  note t = auth_failures_status_401[where L = ref_lib and E = ref_env and now = 300
      and us = "[alice_in 100]" and c = "Some (alice_refresh 100)" and b = None
      and tok = "alice_refresh 100" and m = "''jwt expired''"]
  note t' = auth_failures_status_401[where L = ref_lib and E = ref_env and now = 300
      and us = "[alice_in 100]" and c = "Some (alice_access 100)" and h = None
      and tok' = "alice_access 100" and m' = "''jwt expired''"]
  show ?thesis using t t' a b c d by simp
qed

text \<open>
  The claim as stated fails: the causes are answered with different messages, so a
  caller tells a missing credential from a reused, an expired, a forged and an
  unreadable one.
\<close>

theorem auth_failures_counterexample:
  "fst (refreshAccessToken ref_lib ref_env 101 [alice_in 101] None None)
      = Inl (ApiError 401 ''Unauthorized request'')
 \<and> fst (refreshAccessToken ref_lib ref_env 101 [alice_in 101] (Some (alice_refresh 100)) None)
      = Inl (ApiError 401 ''Refresh token is expired or used'')
 \<and> fst (refreshAccessToken ref_lib ref_env 300 [alice_in 100] (Some (alice_refresh 100)) None)
      = Inl (ApiError 401 ''jwt expired'')
 \<and> fst (refreshAccessToken ref_lib ref_env 101 [alice_in 100] (Some forged_refresh) None)
      = Inl (ApiError 401 ''invalid signature'')
 \<and> fst (refreshAccessToken ref_lib ref_env 101 [alice_in 100] (Some ''garbage'') None)
      = Inl (ApiError 401 ''jwt malformed'')
 \<and> verifyJWT ref_lib ref_env 101 [alice] None None
      = Inl (ApiError 401 ''Unauthorized request - No token found'')
 \<and> verifyJWT ref_lib ref_env 300 [alice] (Some (alice_access 100)) None
      = Inl (ApiError 401 ''jwt expired'')
 \<and> verifyJWT ref_lib ref_env 101 [bob] (Some (alice_access 100)) None
      = Inl (ApiError 401 ''Invalid Access Token - User not found'')"
  by code_simp

section \<open>The source of the access credential\<close>

lemma replace_if:
  "replace pat rep s =
     (if take (length pat) s = pat then rep @ drop (length pat) s
      else case s of [] \<Rightarrow> [] | c # cs \<Rightarrow> c # replace pat rep cs)"
  by (cases s) auto

lemma replace_prefix: "replace pat rep (pat @ t) = rep @ t"
  by (subst replace_if) simp

lemma verifyJWT_token_cookie: "truthy c \<Longrightarrow> verifyJWT_token c h = c"
  by (simp add: verifyJWT_token_def js_or_def)

lemma verifyJWT_token_header:
  "\<not> truthy c \<Longrightarrow> verifyJWT_token c (Some (''Bearer '' @ t)) = Some t"
  using replace_prefix[of "''Bearer ''" "[]" t]
  by (simp add: verifyJWT_token_def js_or_def)

lemma verifyJWT_same_token:
  "verifyJWT_token c h = verifyJWT_token c' h'
     \<Longrightarrow> verifyJWT L E now us c h = verifyJWT L E now us c' h'"
  by (simp add: verifyJWT_def verifyJWT_try_def)

lemma verifyJWT_token_equiv:
  assumes "(case verifyJWT_token c h of None \<Rightarrow> [] | Some t \<Rightarrow> t)
         = (case verifyJWT_token c' h' of None \<Rightarrow> [] | Some t \<Rightarrow> t)"
  shows "verifyJWT L E now us c h = verifyJWT L E now us c' h'"
  using assms unfolding verifyJWT_def verifyJWT_try_def
  by (cases "verifyJWT_token c h"; cases "verifyJWT_token c' h'") auto

text \<open>
  C7. \<open>verifyJWT\<close> takes the access credential from the cookie first: when the cookie
  holds a credential, the result is the one without any Authorization header. Only when
  the cookie holds none (no cookie, or a cookie with the empty value, which is no
  credential) is the header parsed, and a header \<open>Bearer t\<close> gives the credential \<open>t\<close>.
  When neither source yields a credential the result is 401 "Unauthorized request - No
  token found"; when the credential verifies but its subject is not in the users
  collection the result is 401 "Invalid Access Token - User not found".
\<close>

theorem verifyJWT_token_source:
  "(truthy c \<longrightarrow> verifyJWT L E now us c h = verifyJWT L E now us c None)
 \<and> (\<not> truthy c \<longrightarrow>
       verifyJWT L E now us c (Some (''Bearer '' @ t)) = verifyJWT L E now us (Some t) None)
 \<and> (\<not> truthy c \<and> \<not> truthy (map_option (replace ''Bearer '' []) h) \<longrightarrow>
       verifyJWT L E now us c h = Inl (ApiError 401 ''Unauthorized request - No token found''))
 \<and> (verifyJWT_token c h = Some tok \<and> tok \<noteq> []
       \<and> jwt_verify L tok (ACCESS_TOKEN_SECRET E) now = Inr p
       \<and> findById us (payload_id p) = None \<longrightarrow>
       verifyJWT L E now us c h = Inl (ApiError 401 ''Invalid Access Token - User not found''))"
proof (intro conjI impI)
  assume "truthy c"
  then show "verifyJWT L E now us c h = verifyJWT L E now us c None"
    by (intro verifyJWT_same_token) (simp add: verifyJWT_token_cookie)
next
  assume c: "\<not> truthy c"
  have h: "verifyJWT_token c (Some (''Bearer '' @ t)) = Some t"
    by (rule verifyJWT_token_header[OF c])
  have k: "(case verifyJWT_token (Some t) None of None \<Rightarrow> [] | Some x \<Rightarrow> x) = t"
    by (simp add: verifyJWT_token_def js_or_def truthy_def)
  show "verifyJWT L E now us c (Some (''Bearer '' @ t)) = verifyJWT L E now us (Some t) None"
    by (rule verifyJWT_token_equiv) (simp only: h k option.case)
next
  assume "\<not> truthy c \<and> \<not> truthy (map_option (replace ''Bearer '' []) h)"
  then show "verifyJWT L E now us c h
               = Inl (ApiError 401 ''Unauthorized request - No token found'')"
    by (auto simp: verifyJWT_def verifyJWT_try_def verifyJWT_token_def js_or_def truthy_def
          message_or_def split: option.splits)
next
  assume "verifyJWT_token c h = Some tok \<and> tok \<noteq> []
       \<and> jwt_verify L tok (ACCESS_TOKEN_SECRET E) now = Inr p
       \<and> findById us (payload_id p) = None"
  then show "verifyJWT L E now us c h
               = Inl (ApiError 401 ''Invalid Access Token - User not found'')"
    by (simp add: verifyJWT_def verifyJWT_try_def message_or_def)
qed

text \<open>
  Alice's access token in the cookie wins over a header; without a cookie the header
  \<open>Bearer <token>\<close> authenticates her; no cookie and no header is refused; her token is
  refused where her account is not in the collection.
\<close>

theorem verifyJWT_token_source_witness:
  "verifyJWT ref_lib ref_env 101 [alice] (Some (alice_access 100)) (Some ''Bearer garbage'')
     = verifyJWT ref_lib ref_env 101 [alice] (Some (alice_access 100)) None
 \<and> verifyJWT ref_lib ref_env 101 [alice] (Some (alice_access 100)) None = Inr (sanitized alice)
 \<and> verifyJWT ref_lib ref_env 101 [alice] None (Some (''Bearer '' @ alice_access 100))
     = verifyJWT ref_lib ref_env 101 [alice] (Some (alice_access 100)) None
 \<and> verifyJWT ref_lib ref_env 101 [alice] None None
     = Inl (ApiError 401 ''Unauthorized request - No token found'')
 \<and> verifyJWT ref_lib ref_env 101 [bob] (Some (alice_access 100)) None
     = Inl (ApiError 401 ''Invalid Access Token - User not found'')"
proof -
  have ne: "alice_access 100 \<noteq> []"
    by (simp add: alice_access_def generateAccessToken_def ref_lib_def ref_sign_def)
  then have tr: "truthy (Some (alice_access 100))" by (simp add: truthy_def)
  have nt: "\<not> truthy None" "\<not> truthy None \<and> \<not> truthy (map_option (replace ''Bearer '' []) None)"
    by (simp_all add: truthy_def)
  have tok: "verifyJWT_token (Some (alice_access 100)) None = Some (alice_access 100)"
    using tr by (simp add: verifyJWT_token_cookie)
  have v: "jwt_verify ref_lib (alice_access 100) (ACCESS_TOKEN_SECRET ref_env) 101
             = Inr (AccessPayload 1 ''alice@x.com'' ''alice'' ''Alice'')"
    by code_simp
  have nf: "findById [bob] (payload_id (AccessPayload 1 ''alice@x.com'' ''alice'' ''Alice'')) = None"
    by (simp add: findById_def bob_def)
  have ok: "verifyJWT ref_lib ref_env 101 [alice] (Some (alice_access 100)) None
              = Inr (sanitized alice)"
    by code_simp
  note a = verifyJWT_token_source[where L = ref_lib and E = ref_env and now = 101
      and us = "[alice]" and c = "Some (alice_access 100)" and h = "Some ''Bearer garbage''"]
  note b = verifyJWT_token_source[where L = ref_lib and E = ref_env and now = 101
      and us = "[alice]" and c = None and h = None and t = "alice_access 100"]
  note d = verifyJWT_token_source[where L = ref_lib and E = ref_env and now = 101
      and us = "[bob]" and c = "Some (alice_access 100)" and h = None
      and tok = "alice_access 100" and p = "AccessPayload 1 ''alice@x.com'' ''alice'' ''Alice''"]
  from a tr have 1: "verifyJWT ref_lib ref_env 101 [alice] (Some (alice_access 100))
                       (Some ''Bearer garbage'')
                     = verifyJWT ref_lib ref_env 101 [alice] (Some (alice_access 100)) None"
    by blast
  from b nt have 2: "verifyJWT ref_lib ref_env 101 [alice] None (Some (''Bearer '' @ alice_access 100))
                     = verifyJWT ref_lib ref_env 101 [alice] (Some (alice_access 100)) None"
    and 3: "verifyJWT ref_lib ref_env 101 [alice] None None
              = Inl (ApiError 401 ''Unauthorized request - No token found'')"
    by blast+
  from d tok ne v nf have 4: "verifyJWT ref_lib ref_env 101 [bob] (Some (alice_access 100)) None
              = Inl (ApiError 401 ''Invalid Access Token - User not found'')"
    by blast
  from 1 ok 2 3 4 show ?thesis by blast
qed

text \<open>
  A cookie with the empty value holds no credential and counts as absent: the header's
  token authenticates the request, and without the header the request is refused.
\<close>

lemma verifyJWT_empty_cookie:
  "verifyJWT ref_lib ref_env 101 [alice] (Some []) (Some (''Bearer '' @ alice_access 100))
     = Inr (sanitized alice)
 \<and> verifyJWT ref_lib ref_env 101 [alice] (Some []) None
     = Inl (ApiError 401 ''Unauthorized request - No token found'')"
  by code_simp

section \<open>The sanitized identity\<close>

lemma map_of_select_excluding:
  "map_of (select_excluding paths d) k = (if k \<in> set paths then None else map_of d k)"
  unfolding select_excluding_def by (induction d) auto

lemma sanitized_no_password: "map_of (sanitized u) ''password'' = None"
  by (simp add: sanitized_def map_of_select_excluding)

lemma sanitized_no_refreshToken: "map_of (sanitized u) ''refreshToken'' = None"
  by (simp add: sanitized_def map_of_select_excluding)

lemma verifyJWT_Inr:
  "verifyJWT L E now us c h = Inr req_user \<Longrightarrow> \<exists>u. req_user = sanitized u \<and> u \<in> set us"
  by (auto simp: verifyJWT_def verifyJWT_try_def findById_def
           split: option.splits sum.splits if_splits dest: find_Some_set)

lemma loginUser_Inr:
  "loginUser L E now us em un pw = (Inr r, us') \<Longrightarrow>
     \<exists>a t d. api_data r = JObject [(''user'', d), (''accessToken'', a), (''refreshToken'', t)]
        \<and> (d = JNull \<or> (\<exists>u. d = JObject (sanitized u)))"
  by (auto simp: loginUser_def doc_or_null_def Let_def
           split: option.splits sum.splits if_splits prod.splits)

text \<open>
  C8. Whenever \<open>verifyJWT\<close> succeeds, the identity it exposes as \<open>req.user\<close> has neither
  a \<open>password\<close> nor a \<open>refreshToken\<close> property; whenever \<open>loginUser\<close> succeeds, the
  \<open>user\<close> of its response data has neither.
\<close>

theorem sanitized_identity:
  "(verifyJWT L E now us c h = Inr req_user \<longrightarrow>
      js_prop (JObject req_user) ''password'' = JUndefined \<and>
      js_prop (JObject req_user) ''refreshToken'' = JUndefined) \<and>
   (loginUser L E now us em un pw = (Inr r, us') \<longrightarrow>
      js_prop (js_prop (api_data r) ''user'') ''password'' = JUndefined \<and>
      js_prop (js_prop (api_data r) ''user'') ''refreshToken'' = JUndefined)"
proof (intro conjI impI)
  assume "verifyJWT L E now us c h = Inr req_user"
  then obtain u where "req_user = sanitized u" using verifyJWT_Inr by blast
  then show "js_prop (JObject req_user) ''password'' = JUndefined"
    and "js_prop (JObject req_user) ''refreshToken'' = JUndefined"
    by (simp_all add: js_prop_def sanitized_no_password sanitized_no_refreshToken)
next
  assume "loginUser L E now us em un pw = (Inr r, us')"
  from loginUser_Inr[OF this] obtain a t d where
    d: "api_data r = JObject [(''user'', d), (''accessToken'', a), (''refreshToken'', t)]"
       "d = JNull \<or> (\<exists>u. d = JObject (sanitized u))" by blast
  then show "js_prop (js_prop (api_data r) ''user'') ''password'' = JUndefined"
    and "js_prop (js_prop (api_data r) ''user'') ''refreshToken'' = JUndefined"
    by (auto simp: js_prop_def sanitized_no_password sanitized_no_refreshToken)
qed

text \<open>
  Alice, holding a refresh token and a password hash in the store, authenticates and
  logs in: the identity and the projection keep her name and lack both secrets.
\<close>

theorem sanitized_identity_witness:
  "verifyJWT ref_lib ref_env 101 [alice_in 100] (Some (alice_access 100)) None
     = Inr (sanitized (alice_in 100))
 \<and> js_prop (JObject (sanitized (alice_in 100))) ''username'' = JString ''alice''
 \<and> js_prop (JObject (sanitized (alice_in 100))) ''password'' = JUndefined
 \<and> js_prop (JObject (sanitized (alice_in 100))) ''refreshToken'' = JUndefined
 \<and> (\<exists>r us'. loginUser ref_lib ref_env 101 [alice_in 100] None (Some ''alice'') ''pw123''
                = (Inr r, us')
        \<and> js_prop (js_prop (api_data r) ''user'') ''username'' = JString ''alice''
        \<and> js_prop (js_prop (api_data r) ''user'') ''password'' = JUndefined
        \<and> js_prop (js_prop (api_data r) ''user'') ''refreshToken'' = JUndefined)"
proof -
  have v: "verifyJWT ref_lib ref_env 101 [alice_in 100] (Some (alice_access 100)) None
             = Inr (sanitized (alice_in 100))"
    by code_simp
  have n: "js_prop (JObject (sanitized (alice_in 100))) ''username'' = JString ''alice''"
    by code_simp
  have "\<exists>r. fst (loginUser ref_lib ref_env 101 [alice_in 100] None (Some ''alice'') ''pw123'')
               = Inr r \<and> js_prop (js_prop (api_data r) ''user'') ''username'' = JString ''alice''"
    by (simp add: loginUser_def truthy_def findOne_username_or_email_def string_defs alice_def
         alice_in_def
         isPasswordCorrect_def ref_lib_def generateAccessAndRefereshTokens_def findById_def
         Let_def save_def pre_save_def destructure_def js_of_opt_def doc_or_null_def
         sanitized_def select_excluding_def user_doc_def js_prop_def)
  then obtain r us' where
    l: "loginUser ref_lib ref_env 101 [alice_in 100] None (Some ''alice'') ''pw123'' = (Inr r, us')"
    and ln: "js_prop (js_prop (api_data r) ''user'') ''username'' = JString ''alice''"
    by (metis prod.collapse)
  note t = sanitized_identity[where L = ref_lib and E = ref_env and now = 101
      and us = "[alice_in 100]" and c = "Some (alice_access 100)" and h = None
      and req_user = "sanitized (alice_in 100)" and em = None and un = "Some ''alice''"
      and pw = "''pw123''" and r = r and us' = us']
  from t v l ln n show ?thesis by blast
qed

section \<open>Changing the password\<close>

text \<open>
  C9, as amended. For an account \<open>uid\<close> of the collection: when the old password does
  not match the stored hash, \<open>changeCurrentPassword\<close> fails with 400 "Invalid old
  password" and the collection, the stored hash included, is unchanged. When it matches,
  the handler answers 200 and the account's stored hash becomes the bcrypt hash of the
  new password, except when the new password is the stored hash string itself: then the
  assignment does not modify the path, the hook does not hash, and the stored hash stays
  as it is. In both cases the account's stored refresh credential is what it was and no
  other account changes.
\<close>

theorem changeCurrentPassword_frame:
  assumes "findById us uid = Some u"
  shows "(\<not> bcrypt_compare L old (password u) \<longrightarrow>
            changeCurrentPassword L us uid old new
              = (Inl (ApiError 400 ''Invalid old password''), us))
       \<and> (bcrypt_compare L old (password u) \<longrightarrow>
            (\<exists>r us'. changeCurrentPassword L us uid old new = (Inr r, us') \<and> status r = 200
               \<and> map_option password (findById us' uid)
                    = Some (if new = password u then password u else bcrypt_hash L new 10)
               \<and> map_option refreshToken (findById us' uid) = Some (refreshToken u)
               \<and> (\<forall>j. j \<noteq> uid \<longrightarrow> findById us' j = findById us j)))"
  using assms findById_Some_id[OF assms]
  by (auto simp: changeCurrentPassword_def isPasswordCorrect_def findById_save pre_save_def)

text \<open>
  Alice, logged in with the token of second 100: a wrong old password is refused and
  nothing changes; the right one replaces the hash and keeps the refresh token.
\<close>

theorem changeCurrentPassword_frame_witness:
  "changeCurrentPassword ref_lib [alice_in 100, bob] 1 ''wrong'' ''s3cret''
     = (Inl (ApiError 400 ''Invalid old password''), [alice_in 100, bob])
 \<and> (\<exists>r us'. changeCurrentPassword ref_lib [alice_in 100, bob] 1 ''pw123'' ''s3cret'' = (Inr r, us')
       \<and> status r = 200
       \<and> map_option password (findById us' 1) = Some ''$2b$s3cret''
       \<and> map_option refreshToken (findById us' 1) = Some (Some (alice_refresh 100))
       \<and> findById us' 2 = Some bob)"
proof -
  have a: "findById [alice_in 100, bob] 1 = Some (alice_in 100)"
    by (simp add: findById_def alice_in_def alice_def)
  have w: "\<not> bcrypt_compare ref_lib ''wrong'' (password (alice_in 100))"
    by (simp add: ref_lib_def alice_in_def alice_def)
  have g: "bcrypt_compare ref_lib ''pw123'' (password (alice_in 100))"
    by (simp add: ref_lib_def alice_in_def alice_def)
  have h: "(if ''s3cret'' = password (alice_in 100) then password (alice_in 100)
            else bcrypt_hash ref_lib ''s3cret'' 10) = ''$2b$s3cret''"
    by (simp add: ref_lib_def alice_in_def alice_def)
  have t: "refreshToken (alice_in 100) = Some (alice_refresh 100)"
    by (simp add: alice_in_def)
  have b: "findById [alice_in 100, bob] 2 = Some bob"
    by (simp add: findById_def alice_in_def alice_def bob_def)
  from changeCurrentPassword_frame[OF a, of ref_lib "''wrong''" "''s3cret''"] w
  have 1: "changeCurrentPassword ref_lib [alice_in 100, bob] 1 ''wrong'' ''s3cret''
             = (Inl (ApiError 400 ''Invalid old password''), [alice_in 100, bob])"
    by blast
  from changeCurrentPassword_frame[OF a, of ref_lib "''pw123''" "''s3cret''"] g
  obtain r us' where
    2: "changeCurrentPassword ref_lib [alice_in 100, bob] 1 ''pw123'' ''s3cret'' = (Inr r, us')"
       "status r = 200"
       "map_option password (findById us' 1)
          = Some (if ''s3cret'' = password (alice_in 100) then password (alice_in 100)
                  else bcrypt_hash ref_lib ''s3cret'' 10)"
       "map_option refreshToken (findById us' 1) = Some (refreshToken (alice_in 100))"
       "\<forall>j. j \<noteq> 1 \<longrightarrow> findById us' j = findById [alice_in 100, bob] j"
    by blast
  from 2(5) b have "findById us' 2 = Some bob" by simp
  with 1 2(1,2) 2(3)[unfolded h] 2(4)[unfolded t] show ?thesis by blast
qed

text \<open>
  The claim as stated fails when the new password is the stored hash string: alice's old
  password is accepted, the handler answers 200 "Password changed successfully", and
  the collection is what it was; the stored hash is not the hash of the new password.
\<close>

theorem changeCurrentPassword_same_string_counterexample:
  "password (alice_in 100) = ''$2b$pw123''
 \<and> the_response (changeCurrentPassword ref_lib [alice_in 100, bob] 1 ''pw123'' ''$2b$pw123'')
     = Some \<lparr>status = 200, cookies = [], clearedCookies = [], api_statusCode = 200,
             api_data = JObject [], api_message = ''Password changed successfully''\<rparr>
 \<and> snd (changeCurrentPassword ref_lib [alice_in 100, bob] 1 ''pw123'' ''$2b$pw123'')
     = [alice_in 100, bob]
 \<and> bcrypt_hash ref_lib ''$2b$pw123'' 10 \<noteq> password (alice_in 100)"
  by code_simp

text \<open>The same for every library and every account whose old password is accepted.\<close>

lemma changeCurrentPassword_same_string:
  assumes "findById us uid = Some u" and "bcrypt_compare L old (password u)"
  shows "snd (changeCurrentPassword L us uid old (password u)) = us
       \<and> succeeded (changeCurrentPassword L us uid old (password u))"
  using assms findById_Some_id[OF assms(1)]
  by (simp add: changeCurrentPassword_def isPasswordCorrect_def save_def pre_save_def
        updateById_same succeeded_def)

section \<open>The guard of registration\<close>

lemma some_field_empty_iff:
  "some_field_empty fs = (\<exists>s. Some s \<in> set fs \<and> trim s = [])"
  by (induction fs) (auto simp: some_field_empty_def)

lemma User_create_message:
  "User_create L nid us a b c d e f = (Inl err, x) \<Longrightarrow> statusCode err = None"
  by (auto simp: User_create_def Let_def split: option.splits prod.splits if_splits)

lemma registerUser_create_message:
  "fst (registerUser_create L nid us fn em un pw a c) \<noteq> Inl (ApiError 400 m)"
proof (cases un)
  case None
  then show ?thesis by (simp add: registerUser_create_def)
next
  case (Some n)
  show ?thesis
  proof (cases "User_create L nid us fn a
                  (case js_or c (Some []) of None \<Rightarrow> [] | Some c \<Rightarrow> c) em pw (toLowerCase n)")
    case (Pair r us')
    show ?thesis
    proof (cases r)
      case (Inl err)
      with Pair User_create_message have "statusCode err = None" by blast
      then have "err \<noteq> ApiError 400 m" by auto
      with Inl Pair Some show ?thesis by (simp add: registerUser_create_def)
    next
      case (Inr u)
      with Pair Some show ?thesis
        by (simp add: registerUser_create_def split: option.splits)
    qed
  qed
qed

lemma registerUser_guard_passed:
  "\<not> some_field_empty [fn, em, un, pw] \<Longrightarrow>
     fst (registerUser L upload nid us fn em un pw fls)
       \<noteq> Inl (ApiError 400 ''All fields are required'')"
  unfolding registerUser_def
  by (simp add: registerUser_create_message avatarLocalPath_of_def
           split: option.splits sum.splits list.splits)

text \<open>
  C10. \<open>registerUser\<close> rejects with 400 "All fields are required" exactly when one of the
  four fields is supplied and trims to the empty string; a field that is absent never
  triggers the rejection, and a request with all four fields absent passes the guard.
\<close>

theorem registerUser_all_fields_required:
  "((fst (registerUser L upload nid us fn em un pw fls)
       = Inl (ApiError 400 ''All fields are required''))
     = (\<exists>s. Some s \<in> set [fn, em, un, pw] \<and> trim s = []))
 \<and> some_field_empty (None # flds) = some_field_empty flds
 \<and> fst (registerUser L upload nid us None None None None fls)
       \<noteq> Inl (ApiError 400 ''All fields are required'')"
proof (intro conjI)
  show "(fst (registerUser L upload nid us fn em un pw fls)
           = Inl (ApiError 400 ''All fields are required''))
        = (\<exists>s. Some s \<in> set [fn, em, un, pw] \<and> trim s = [])"
  proof (cases "some_field_empty [fn, em, un, pw]")
    case True
    then have "fst (registerUser L upload nid us fn em un pw fls)
                 = Inl (ApiError 400 ''All fields are required'')"
      by (simp add: registerUser_def)
    moreover from True have "\<exists>s. Some s \<in> set [fn, em, un, pw] \<and> trim s = []"
      by (rule some_field_empty_iff[THEN iffD1])
    ultimately show ?thesis by blast
  next
    case False
    then have "\<not> (\<exists>s. Some s \<in> set [fn, em, un, pw] \<and> trim s = [])"
      using some_field_empty_iff[of "[fn, em, un, pw]"] by blast
    with registerUser_guard_passed[OF False] show ?thesis by blast
  qed
next
  show "some_field_empty (None # flds) = some_field_empty flds"
    by (simp add: some_field_empty_def)
next
  have "\<not> some_field_empty [None, None, None, None]"
    by (simp add: some_field_empty_def)
  then show "fst (registerUser L upload nid us None None None None fls)
               \<noteq> Inl (ApiError 400 ''All fields are required'')"
    by (rule registerUser_guard_passed)
qed

text \<open>
  A blank username is rejected by the guard; the same request without the username
  passes the guard and fails later, on \<open>username.toLowerCase()\<close>.
\<close>

theorem registerUser_all_fields_required_witness:
  "fst (registerUser ref_lib (\<lambda>path. Some (''http://img/'' @ path)) 3 [alice]
          (Some ''Carol'') (Some ''carol@x.com'') (Some ''  '') (Some ''pw'')
          (Some \<lparr>files_avatar = Some [''c.png''], files_coverImage = None\<rparr>))
     = Inl (ApiError 400 ''All fields are required'')
 \<and> fst (registerUser ref_lib (\<lambda>path. Some (''http://img/'' @ path)) 3 [alice]
          (Some ''Carol'') (Some ''carol@x.com'') None (Some ''pw'')
          (Some \<lparr>files_avatar = Some [''c.png''], files_coverImage = None\<rparr>))
     = Inl (JsError ''Cannot read properties of undefined (reading 'toLowerCase')'')"
proof -
  have e: "\<exists>s. Some s \<in> set [Some ''Carol'', Some ''carol@x.com'', Some ''  '', Some ''pw'']
             \<and> trim s = []"
    by (rule exI[of _ "''  ''"]) (simp add: trim_def is_white_space_def)
  note t = registerUser_all_fields_required[where L = ref_lib
      and upload = "\<lambda>path. Some (''http://img/'' @ path)" and nid = 3 and us = "[alice]"
      and fn = "Some ''Carol''" and em = "Some ''carol@x.com''" and un = "Some ''  ''"
      and pw = "Some ''pw''"
      and fls = "Some \<lparr>files_avatar = Some [''c.png''], files_coverImage = None\<rparr>"]
  have 2: "fst (registerUser ref_lib (\<lambda>path. Some (''http://img/'' @ path)) 3 [alice]
          (Some ''Carol'') (Some ''carol@x.com'') None (Some ''pw'')
          (Some \<lparr>files_avatar = Some [''c.png''], files_coverImage = None\<rparr>))
     = Inl (JsError ''Cannot read properties of undefined (reading 'toLowerCase')'')"
    by (simp add: registerUser_def some_field_empty_def string_defs
          findOne_username_or_email_def alice_def avatarLocalPath_of_def truthy_def
          uploadOnCloudinary_def registerUser_create_def)
  from t e 2 show ?thesis by blast
qed

section \<open>The channel profile\<close>

lemma trim_empty_iff: "trim s = [] \<longleftrightarrow> (\<forall>c\<in>set s. is_white_space c)"
proof
  assume "trim s = []"
  then have a: "\<forall>c\<in>set (dropWhile is_white_space s). is_white_space c"
    by (simp add: trim_def)
  have "dropWhile is_white_space s = []"
  proof (rule ccontr)
    assume n: "dropWhile is_white_space s \<noteq> []"
    then have "\<not> is_white_space (hd (dropWhile is_white_space s))" by (rule hd_dropWhile)
    moreover from n have "hd (dropWhile is_white_space s) \<in> set (dropWhile is_white_space s)"
      by simp
    ultimately show False using a by blast
  qed
  then show "\<forall>c\<in>set s. is_white_space c" by simp
next
  assume "\<forall>c\<in>set s. is_white_space c"
  then have d: "dropWhile is_white_space s = []" by simp
  show "trim s = []" unfolding trim_def d by simp
qed

lemma is_white_space_toLowerCase_char: "is_white_space (toLowerCase_char c) = is_white_space c"
  by (simp add: toLowerCase_char_def is_white_space_def upper_letters_def lower_letters_def)

lemma trim_toLowerCase_empty: "trim (toLowerCase s) = [] \<longleftrightarrow> trim s = []"
  by (simp add: trim_empty_iff toLowerCase_def is_white_space_toLowerCase_char)

lemma channel_pipeline_counts:
  "channel_pipeline us subs viewer name =
     map (\<lambda>u. \<lparr>cp_id = user_id u, cp_fullName = fullName u, cp_username = username u,
                subscribersCount = length (filter (\<lambda>s. channel s = user_id u) subs),
                channelsSubscribedToCount = length (filter (\<lambda>s. subscriber s = user_id u) subs),
                isSubscribed = (\<exists>s\<in>set subs. channel s = user_id u \<and> Some (subscriber s) = viewer),
                cp_avatar = avatar u, cp_coverImage = coverImage u, cp_email = email u\<rparr>)
       (filter (\<lambda>u. username u = name) us)"
  unfolding channel_pipeline_def lookup_def Let_def
  by (rule map_cong[OF refl]) (auto split: option.splits)

text \<open>
  C5, as amended. \<open>getUserChannelProfile\<close> depends on the handle only through its
  lowercase form, which it compares with the stored usernames. For a handle that is not
  blank and the first account \<open>u\<close> whose username is the lowercased handle, it answers
  200 with \<open>subscribersCount\<close> the number of subscription rows whose channel is \<open>u\<close>,
  \<open>channelsSubscribedToCount\<close> the number of rows whose subscriber is \<open>u\<close>, and
  \<open>isSubscribed\<close> true iff a row has channel \<open>u\<close> and the viewer as subscriber. For a
  handle that is not blank and matches no account it fails with 404 "channel does not
  exist". A blank handle and a missing handle fail with 400 "username is missing".
\<close>

theorem channel_profile:
  "(toLowerCase h' = toLowerCase h \<longrightarrow>
      getUserChannelProfile us subs viewer (Some h')
        = getUserChannelProfile us subs viewer (Some h))
 \<and> (trim h \<noteq> [] \<and> find (\<lambda>u. username u = toLowerCase h) us = Some u \<longrightarrow>
      (\<exists>r. getUserChannelProfile us subs viewer (Some h) = Inr r \<and> status r = 200
          \<and> cp_id (api_data r) = user_id u \<and> cp_username (api_data r) = toLowerCase h
          \<and> subscribersCount (api_data r) = length (filter (\<lambda>s. channel s = user_id u) subs)
          \<and> channelsSubscribedToCount (api_data r)
              = length (filter (\<lambda>s. subscriber s = user_id u) subs)
          \<and> isSubscribed (api_data r)
              = (\<exists>s\<in>set subs. channel s = user_id u \<and> Some (subscriber s) = viewer)))
 \<and> (trim h \<noteq> [] \<and> find (\<lambda>u. username u = toLowerCase h) us = None \<longrightarrow>
      getUserChannelProfile us subs viewer (Some h)
        = Inl (ApiError 404 ''channel does not exist''))
 \<and> (trim h = [] \<longrightarrow>
      getUserChannelProfile us subs viewer (Some h) = Inl (ApiError 400 ''username is missing''))
 \<and> getUserChannelProfile us subs viewer None = Inl (ApiError 400 ''username is missing'')"
proof (intro conjI impI)
  assume eq: "toLowerCase h' = toLowerCase h"
  then have "(trim h' = []) = (trim h = [])"
    using trim_toLowerCase_empty[of h] trim_toLowerCase_empty[of h'] by simp
  with eq show "getUserChannelProfile us subs viewer (Some h')
                  = getUserChannelProfile us subs viewer (Some h)"
    by (simp add: getUserChannelProfile_def)
next
  assume a: "trim h \<noteq> [] \<and> find (\<lambda>u. username u = toLowerCase h) us = Some u"
  then obtain rest where f: "filter (\<lambda>u. username u = toLowerCase h) us = u # rest"
    by (auto simp: find_filter split: list.splits)
  from a have "username u = toLowerCase h" by (auto dest: find_Some_set)
  with a f show "\<exists>r. getUserChannelProfile us subs viewer (Some h) = Inr r \<and> status r = 200
          \<and> cp_id (api_data r) = user_id u \<and> cp_username (api_data r) = toLowerCase h
          \<and> subscribersCount (api_data r) = length (filter (\<lambda>s. channel s = user_id u) subs)
          \<and> channelsSubscribedToCount (api_data r)
              = length (filter (\<lambda>s. subscriber s = user_id u) subs)
          \<and> isSubscribed (api_data r)
              = (\<exists>s\<in>set subs. channel s = user_id u \<and> Some (subscriber s) = viewer)"
    by (simp add: getUserChannelProfile_def channel_pipeline_counts)
next
  assume a: "trim h \<noteq> [] \<and> find (\<lambda>u. username u = toLowerCase h) us = None"
  then have "filter (\<lambda>u. username u = toLowerCase h) us = []"
    by (auto simp: find_filter split: list.splits)
  with a show "getUserChannelProfile us subs viewer (Some h)
                 = Inl (ApiError 404 ''channel does not exist'')"
    by (simp add: getUserChannelProfile_def channel_pipeline_counts)
next
  assume "trim h = []"
  then show "getUserChannelProfile us subs viewer (Some h)
               = Inl (ApiError 400 ''username is missing'')"
    by (simp add: getUserChannelProfile_def)
next
  show "getUserChannelProfile us subs viewer None = Inl (ApiError 400 ''username is missing'')"
    by (simp add: getUserChannelProfile_def)
qed

text \<open>
  Bob follows alice. Bob asks for the channel \<open>Alice\<close>, in any case of the letters: one
  subscriber, no subscriptions, and he is subscribed. The channel \<open>carol\<close> does not
  exist. A handle of one space and no handle at all are reported missing. Asa's channel
  is found under the capital form of her handle, \<open>0xC5\<close> being the capital of \<open>0xE5\<close>.
\<close>

theorem channel_profile_witness:
  "getUserChannelProfile [alice, bob] [bob_follows_alice] (Some 2) (Some ''ALICE'')
     = getUserChannelProfile [alice, bob] [bob_follows_alice] (Some 2) (Some ''Alice'')
 \<and> (\<exists>r. getUserChannelProfile [alice, bob] [bob_follows_alice] (Some 2) (Some ''Alice'') = Inr r
        \<and> status r = 200 \<and> cp_id (api_data r) = 1 \<and> cp_username (api_data r) = ''alice''
        \<and> subscribersCount (api_data r) = 1
        \<and> channelsSubscribedToCount (api_data r) = 0
        \<and> isSubscribed (api_data r))
 \<and> getUserChannelProfile [alice, bob] [bob_follows_alice] (Some 2) (Some ''carol'')
     = Inl (ApiError 404 ''channel does not exist'')
 \<and> getUserChannelProfile [alice, bob] [bob_follows_alice] (Some 2) (Some '' '')
     = Inl (ApiError 400 ''username is missing'')
 \<and> getUserChannelProfile [alice, bob] [bob_follows_alice] (Some 2) None
     = Inl (ApiError 400 ''username is missing'')
 \<and> (\<exists>r. getUserChannelProfile [alice, asa] [] None (Some [CHR 0xC5, CHR ''S'', CHR ''A''])
            = Inr r \<and> cp_id (api_data r) = 3)"
proof -
  have lc: "toLowerCase ''ALICE'' = toLowerCase ''Alice''" "toLowerCase ''Alice'' = ''alice''"
    "toLowerCase ''carol'' = ''carol''"
    by (simp_all add: string_defs)
  have nb: "trim ''Alice'' \<noteq> []" "trim ''carol'' \<noteq> []" "trim '' '' = []"
    by (simp_all add: trim_def is_white_space_def)
  have fa: "find (\<lambda>u. username u = toLowerCase ''Alice'') [alice, bob] = Some alice"
    by (simp add: lc alice_def)
  have fc: "find (\<lambda>u. username u = toLowerCase ''carol'') [alice, bob] = None"
    by (simp add: lc alice_def bob_def)
  note a = channel_profile[where h' = "''ALICE''" and h = "''Alice''" and us = "[alice, bob]"
      and subs = "[bob_follows_alice]" and viewer = "Some 2" and u = alice]
  note c = channel_profile[where h = "''carol''" and us = "[alice, bob]"
      and subs = "[bob_follows_alice]" and viewer = "Some 2"]
  note d = channel_profile[where h = "'' ''" and us = "[alice, bob]"
      and subs = "[bob_follows_alice]" and viewer = "Some 2"]
  from a lc(1) have 1:
    "getUserChannelProfile [alice, bob] [bob_follows_alice] (Some 2) (Some ''ALICE'')
       = getUserChannelProfile [alice, bob] [bob_follows_alice] (Some 2) (Some ''Alice'')"
    by blast
  from a nb(1) fa obtain r where
    r: "getUserChannelProfile [alice, bob] [bob_follows_alice] (Some 2) (Some ''Alice'') = Inr r"
       "status r = 200" "cp_id (api_data r) = user_id alice"
       "cp_username (api_data r) = toLowerCase ''Alice''"
       "subscribersCount (api_data r)
          = length (filter (\<lambda>s. channel s = user_id alice) [bob_follows_alice])"
       "channelsSubscribedToCount (api_data r)
          = length (filter (\<lambda>s. subscriber s = user_id alice) [bob_follows_alice])"
       "isSubscribed (api_data r)
          = (\<exists>s\<in>set [bob_follows_alice]. channel s = user_id alice \<and> Some (subscriber s) = Some 2)"
    by blast
  have 2: "\<exists>r. getUserChannelProfile [alice, bob] [bob_follows_alice] (Some 2) (Some ''Alice'') = Inr r
        \<and> status r = 200 \<and> cp_id (api_data r) = 1 \<and> cp_username (api_data r) = ''alice''
        \<and> subscribersCount (api_data r) = 1
        \<and> channelsSubscribedToCount (api_data r) = 0
        \<and> isSubscribed (api_data r)"
    using r by (intro exI[of _ r]) (simp add: lc alice_def bob_follows_alice_def)
  from c nb(2) fc have 3:
    "getUserChannelProfile [alice, bob] [bob_follows_alice] (Some 2) (Some ''carol'')
       = Inl (ApiError 404 ''channel does not exist'')"
    by blast
  from d nb(3) have 4:
    "getUserChannelProfile [alice, bob] [bob_follows_alice] (Some 2) (Some '' '')
       = Inl (ApiError 400 ''username is missing'')"
    by blast
  from d have 5:
    "getUserChannelProfile [alice, bob] [bob_follows_alice] (Some 2) None
       = Inl (ApiError 400 ''username is missing'')"
    by blast
  have la: "toLowerCase [CHR 0xC5, CHR ''S'', CHR ''A''] = [CHR 0xE5, CHR ''s'', CHR ''a'']"
    "trim [CHR 0xC5, CHR ''S'', CHR ''A''] \<noteq> []"
    by (simp_all add: string_defs)
  have fs: "find (\<lambda>u. username u = toLowerCase [CHR 0xC5, CHR ''S'', CHR ''A'']) [alice, asa]
              = Some asa"
    by (simp add: la alice_def asa_def)
  note e = channel_profile[where h = "[CHR 0xC5, CHR ''S'', CHR ''A'']" and us = "[alice, asa]"
      and subs = "[]" and viewer = None and u = asa]
  from e la(2) fs obtain r' where
    "getUserChannelProfile [alice, asa] [] None (Some [CHR 0xC5, CHR ''S'', CHR ''A'']) = Inr r'"
    "cp_id (api_data r') = user_id asa"
    by blast
  then have 6: "\<exists>r. getUserChannelProfile [alice, asa] [] None
                       (Some [CHR 0xC5, CHR ''S'', CHR ''A'']) = Inr r \<and> cp_id (api_data r) = 3"
    by (intro exI[of _ r']) (simp add: asa_def)
  from 1 2 3 4 5 6 show ?thesis by blast
qed

text \<open>
  The claim as stated fails for a blank handle: no account matches it, and the failure is
  400 "username is missing", not NotFound.
\<close>

theorem channel_profile_blank_counterexample:
  "find (\<lambda>u. username u = toLowerCase '' '') [alice, bob] = None
 \<and> getUserChannelProfile [alice, bob] [bob_follows_alice] (Some 2) (Some '' '')
     = Inl (ApiError 400 ''username is missing'')"
  by code_simp

section \<open>The watch history\<close>

lemma first_Nil: "first [] = None"
  by (simp add: first_def)

lemma first_map_filter: "first (map f (filter P xs)) = map_option f (find P xs)"
  by (induction xs) (auto simp: first_def)

lemma watchHistory_lookup_ids:
  "map entry_id (watchHistory_lookup us videos ids)
     = filter (\<lambda>i. i \<in> set ids) (map video_id videos)"
  by (simp add: watchHistory_lookup_def filter_map comp_def)

lemma owner_lookup_first:
  "first (owner_lookup us local) =
     (case local of None \<Rightarrow> None | Some oid \<Rightarrow> map_option owner_project (findById us oid))"
  by (cases local)
     (simp_all add: owner_lookup_def lookup_def first_map_filter findById_def first_Nil)

text \<open>
  C6, as amended. For a viewer \<open>u\<close> of the collection, \<open>getWatchHistory\<close> answers 200
  with one entry for each video of the videos collection whose id occurs in the viewer's
  stored watched-id sequence: in the order of the videos collection, each video once,
  ids without a video omitted. Each entry carries the video's fields and, as owner, a
  single value: the projection (full name, username, avatar) of the owner account, or
  nothing when the video names no owner or the owner account does not exist. A viewer
  with no history gets the empty sequence.
\<close>

theorem watch_history:
  assumes "findById us viewer = Some u"
  shows "\<exists>r. getWatchHistory us videos viewer = Inr r \<and> status r = 200
      \<and> map entry_id (api_data r) = filter (\<lambda>i. i \<in> set (watchHistory u)) (map video_id videos)
      \<and> list_all2 (\<lambda>e v. entry_id e = video_id v \<and> entry_fields e = video_fields v
                      \<and> entry_owner e = (case video_owner v of
                                           None \<Rightarrow> None
                                         | Some oid \<Rightarrow> map_option owner_project (findById us oid)))
          (api_data r) (filter (\<lambda>v. video_id v \<in> set (watchHistory u)) videos)
      \<and> (watchHistory u = [] \<longrightarrow> api_data r = [])"
proof -
  from assms obtain rest where f: "filter (\<lambda>u. user_id u = viewer) us = u # rest"
    by (auto simp: findById_def find_filter split: list.splits)
  have "list_all2 (\<lambda>e v. entry_id e = video_id v \<and> entry_fields e = video_fields v
                      \<and> entry_owner e = (case video_owner v of
                                           None \<Rightarrow> None
                                         | Some oid \<Rightarrow> map_option owner_project (findById us oid)))
          (watchHistory_lookup us videos (watchHistory u))
          (filter (\<lambda>v. video_id v \<in> set (watchHistory u)) videos)"
    by (simp add: watchHistory_lookup_def list_all2_map1 list_all2_same owner_lookup_first)
  moreover have "watchHistory u = [] \<longrightarrow> watchHistory_lookup us videos (watchHistory u) = []"
    by (simp add: watchHistory_lookup_def)
  ultimately show ?thesis
    using f by (simp add: getWatchHistory_def watchHistory_lookup_ids)
qed

text \<open>
  Bob has watched video 2, video 1 and video 2 again; video 1 is alice's, the owner of
  video 2 has no account. He gets video 1 with alice as owner, then video 2 without an
  owner. Alice has watched nothing and gets the empty sequence.
\<close>

theorem watch_history_witness:
  "(\<exists>r. getWatchHistory [alice, bob] [video1, video2] 2 = Inr r \<and> status r = 200
       \<and> map entry_id (api_data r) = [1, 2]
       \<and> map entry_owner (api_data r) = [Some (owner_project alice), None])
 \<and> (\<exists>r. getWatchHistory [alice, bob] [video1, video2] 1 = Inr r \<and> status r = 200
       \<and> api_data r = [])"
proof -
  have b: "findById [alice, bob] 2 = Some bob"
    by (simp add: findById_def alice_def bob_def)
  have a: "findById [alice, bob] 1 = Some alice"
    by (simp add: findById_def alice_def)
  have n: "findById [alice, bob] 7 = None"
    by (simp add: findById_def alice_def bob_def)
  have fb: "filter (\<lambda>v. video_id v \<in> set (watchHistory bob)) [video1, video2] = [video1, video2]"
    "filter (\<lambda>i. i \<in> set (watchHistory bob)) (map video_id [video1, video2]) = [1, 2]"
    by (simp_all add: bob_def video1_def video2_def)
  have ea: "watchHistory alice = []" by (simp add: alice_def)
  from watch_history[OF b, of "[video1, video2]"] obtain r where
    r: "getWatchHistory [alice, bob] [video1, video2] 2 = Inr r" "status r = 200"
       "map entry_id (api_data r) = [1, 2]"
       "list_all2 (\<lambda>e v. entry_id e = video_id v \<and> entry_fields e = video_fields v
                      \<and> entry_owner e = (case video_owner v of
                                           None \<Rightarrow> None
                                         | Some oid \<Rightarrow> map_option owner_project
                                                        (findById [alice, bob] oid)))
          (api_data r) [video1, video2]"
    unfolding fb by (elim exE conjE)
  from r(4) have "map entry_owner (api_data r) = [Some (owner_project alice), None]"
    using a n by (auto simp: list_all2_Cons2 video1_def video2_def)
  with r(1-3) have 1: "\<exists>r. getWatchHistory [alice, bob] [video1, video2] 2 = Inr r \<and> status r = 200
       \<and> map entry_id (api_data r) = [1, 2]
       \<and> map entry_owner (api_data r) = [Some (owner_project alice), None]"
    by (intro exI[of _ r]) simp
  from watch_history[OF a, of "[video1, video2]"] ea
  have 2: "\<exists>r. getWatchHistory [alice, bob] [video1, video2] 1 = Inr r \<and> status r = 200
       \<and> api_data r = []"
    by auto
  from 1 2 show ?thesis by blast
qed

text \<open>
  The claim as stated fails on the order: bob's stored sequence is video 2, video 1,
  video 2, and the entries returned are video 1, video 2, the order of the videos
  collection with the repeated video once.
\<close>

theorem watch_history_order_counterexample:
  "watchHistory bob = [2, 1, 2]
 \<and> map_option (\<lambda>r. map entry_id (api_data r))
      (result_value (getWatchHistory [alice, bob] [video1, video2] 2))
     = Some [1, 2]"
  by code_simp

end
